theory Spec2Isabelle
  imports Complex_Main "HOL-Library.Word" "HOL-Library.Log_Nat"
begin

section \<open>LinguaFlow: the live-translator hook and the visualizer\<close>

text \<open>
  A shallow embedding of \<^verbatim>\<open>src/types.ts\<close>, \<^verbatim>\<open>src/hooks/useLiveTranslator.ts\<close> and
  \<^verbatim>\<open>src/components/Visualizer.tsx\<close>.

  Conventions of the embedding:
  \<^item> React state (\<^verbatim>\<open>useState\<close>) and refs (\<^verbatim>\<open>useRef\<close>) are the fields of one record
    \<open>State\<close>; a setter call or an assignment to \<^verbatim>\<open>ref.current\<close> is a record update.
  \<^item> Calls into the browser platform and the vendor SDK are appended, in program order, to
    the field \<open>effects\<close>, so that what the hook asks of its environment can be stated.
  \<^item> What the environment hands to the code (clock readings, decoded buffers, promise
    outcomes, delivered audio buffers, analyser readings) is an argument of the operation.
  \<^item> The numbers of the audio clock (\<^verbatim>\<open>currentTime\<close>, \<^verbatim>\<open>duration\<close>, the next start time) are
    IEEE 754 binary64 values of type \<open>number\<close>: \<open>+\<close> rounds to the nearest double, ties to
    even, and overflows to \<open>Infinity\<close>; \<^verbatim>\<open>0.05\<close> is the double nearest to \<open>1/20\<close>. The sign of
    zero is not kept; nothing in the hook can observe it. Canvas coordinates, which only the
    drawing uses, are rationals.
  \<^item> The transcripts, which the code trims, are lists of UTF-16 code units, as JavaScript
    strings are. Strings that the code only stores, compares or passes on are byte strings.
  \<^item> \<^verbatim>\<open>connect\<close> and \<^verbatim>\<open>disconnect\<close> are cut at their \<^verbatim>\<open>await\<close>: the part before it and
    the part after it are separate operations, since other callbacks may run while the
    microphone permission or the session promise is pending. \<^verbatim>\<open>onmessage\<close> is not cut at
    \<^verbatim>\<open>await decodeAudioData\<close>: the helper works on bytes already in memory, so its promise
    is taken to settle before any other callback runs.
\<close>

subsection \<open>JavaScript numbers\<close>

text \<open>A finite double is kept as the rational it denotes.\<close>

datatype number = Finite rat | Infinity | NegInfinity | NaN

text \<open>Rounding a rational to the nearest integer, ties to the even one.\<close>

definition round_even :: "rat \<Rightarrow> int" where
  "round_even r =
     (let f = \<lfloor>r\<rfloor>; frac = r - of_int f
      in if frac < 1 / 2 then f
         else if 1 / 2 < frac then f + 1
         else if even f then f else f + 1)"

text \<open>For \<open>a > 0\<close>, the exponent \<open>e\<close> with \<open>2 ^ e \<le> a < 2 ^ (e + 1)\<close>, from the bit lengths of
  numerator and denominator.\<close>

definition binade :: "rat \<Rightarrow> int" where
  "binade a =
     (let k = bitlen (fst (quotient_of a)) - bitlen (snd (quotient_of a))
      in if power_int 2 k \<le> a then k else k - 1)"

text \<open>The spacing of the doubles around \<open>a > 0\<close>: 53 significant bits, and the spacing of
  the subnormals below \<open>2 ^ - 1022\<close>.\<close>

definition quantum :: "rat \<Rightarrow> rat" where
  "quantum a = power_int 2 (max (binade a) (- 1022) - 52)"

definition round_magnitude :: "rat \<Rightarrow> rat" where
  "round_magnitude a = of_int (round_even (a / quantum a)) * quantum a"

text \<open>The double nearest to a rational (roundTiesToEven); a magnitude that rounds to
  \<open>2 ^ 1024\<close> is an infinity.\<close>

definition to_double :: "rat \<Rightarrow> number" where
  "to_double x =
     (if x = 0 then Finite 0
      else
        let v = round_magnitude \<bar>x\<bar>
        in if power_int 2 1024 \<le> v then (if 0 < x then Infinity else NegInfinity)
           else Finite (if 0 < x then v else - v))"


text \<open>The operators \<^verbatim>\<open>+\<close> and \<^verbatim>\<open><\<close> on numbers, and \<^verbatim>\<open><=\<close> for stating bounds.\<close>

definition num_add :: "number \<Rightarrow> number \<Rightarrow> number" where
  "num_add x y =
     (case x of
        Finite a \<Rightarrow>
          (case y of
             Finite b \<Rightarrow> to_double (a + b)
           | Infinity \<Rightarrow> Infinity
           | NegInfinity \<Rightarrow> NegInfinity
           | NaN \<Rightarrow> NaN)
      | Infinity \<Rightarrow>
          (case y of
             Finite b \<Rightarrow> Infinity
           | Infinity \<Rightarrow> Infinity
           | NegInfinity \<Rightarrow> NaN
           | NaN \<Rightarrow> NaN)
      | NegInfinity \<Rightarrow>
          (case y of
             Finite b \<Rightarrow> NegInfinity
           | Infinity \<Rightarrow> NaN
           | NegInfinity \<Rightarrow> NegInfinity
           | NaN \<Rightarrow> NaN)
      | NaN \<Rightarrow> NaN)"

definition num_less :: "number \<Rightarrow> number \<Rightarrow> bool" where
  "num_less x y =
     (case x of
        Finite a \<Rightarrow>
          (case y of
             Finite b \<Rightarrow> a < b
           | Infinity \<Rightarrow> True
           | NegInfinity \<Rightarrow> False
           | NaN \<Rightarrow> False)
      | Infinity \<Rightarrow> False
      | NegInfinity \<Rightarrow>
          (case y of
             Finite b \<Rightarrow> True
           | Infinity \<Rightarrow> True
           | NegInfinity \<Rightarrow> False
           | NaN \<Rightarrow> False)
      | NaN \<Rightarrow> False)"


text \<open>The literal \<^verbatim>\<open>0.05\<close> of line 256.\<close>

definition tiny_buffer :: number where
  "tiny_buffer = to_double (1 / 20)"


subsection \<open>JavaScript strings\<close>

type_synonym js_string = "16 word list"

subsection \<open>\<^verbatim>\<open>types.ts\<close>\<close>

datatype ConnectionState = DISCONNECTED | CONNECTING | CONNECTED | ERROR

datatype Sender = Sender_user | Sender_model

record ChatMessage =
  msg_id :: string
  msg_text :: js_string
  sender :: Sender
  timestamp :: int
  language :: "string option"
  isTranslating :: "bool option"

subsection \<open>Platform and vendor objects, as far as the hook uses them\<close>

type_synonym Uint8Array = "8 word list"
type_synonym Float32Array = "rat list"

record AudioContext =
  sampleRate :: nat

record AnalyserNode =
  fftSize :: nat

record ScriptProcessorNode =
  bufferSize :: nat
  numberOfInputChannels :: nat
  numberOfOutputChannels :: nat
  onaudioprocess_set :: bool

record MediaStream =
  tracks :: "string list"

record MediaStreamAudioSourceNode =
  mediaStream :: MediaStream

record AudioBuffer =
  duration :: number

record AudioBufferSourceNode =
  node_id :: nat
  buffer :: AudioBuffer

record PcmBlob =
  blob_data :: string
  mimeType :: string

text \<open>The promise returned by \<^verbatim>\<open>ai.live.connect\<close>, with the model and the target language
  its configuration was built from.\<close>

record SessionPromise =
  session_model :: string
  session_targetLanguage :: string

text \<open>The parts of a \<^verbatim>\<open>LiveServerMessage\<close> that \<^verbatim>\<open>onmessage\<close> reads. An optional
  property is an \<open>option\<close>; \<^verbatim>\<open>functionCalls\<close> and \<^verbatim>\<open>args.language\<close> are read without a
  guard and are therefore plain fields.\<close>

record FunctionCall =
  fc_id :: string
  fc_name :: string
  fc_args_language :: string

record LiveServerToolCall =
  functionCalls :: "FunctionCall list"

record Transcription =
  transcription_text :: "js_string option"

record InlineData =
  inline_data :: "string option"

record Part =
  inlineData :: "InlineData option"

record Content =
  parts :: "Part list option"

record LiveServerContent =
  inputTranscription :: "Transcription option"
  outputTranscription :: "Transcription option"
  turnComplete :: "bool option"
  modelTurn :: "Content option"

record LiveServerMessage =
  toolCall :: "LiveServerToolCall option"
  serverContent :: "LiveServerContent option"

record AudioProcessingEvent =
  inputBuffer :: "Float32Array list"

subsection \<open>Imports that are not part of the sources at hand\<close>

text \<open>\<^verbatim>\<open>../constants\<close> and \<^verbatim>\<open>../utils/audio\<close> are taken as parameters. A helper that throws
  returns \<open>None\<close>.\<close>

record Deps =
  AUDIO_INPUT_SAMPLE_RATE :: nat
  AUDIO_OUTPUT_SAMPLE_RATE :: nat
  GEMINI_MODEL :: string
  createPcmBlob :: "Float32Array \<Rightarrow> nat \<Rightarrow> PcmBlob"
  base64ToUint8Array :: "string \<Rightarrow> Uint8Array option"
  decodeAudioData :: "Uint8Array \<Rightarrow> AudioContext \<Rightarrow> nat \<Rightarrow> AudioBuffer option"

subsection \<open>Effects on the environment\<close>

text \<open>One constructor per call the hook makes into the platform or the SDK.
  \<open>SendRealtimeInput\<close> and \<open>SendToolResponse\<close> stand for the callback registered with
  \<^verbatim>\<open>sessionPromiseRef.current.then\<close>, which makes the one SDK call when the promise is
  fulfilled.\<close>

datatype AudioNode =
    MicSourceNode
  | InputAnalyserNode
  | ProcessorNode
  | InputDestination
  | OutputAnalyserNode
  | OutputDestination
  | BufferSource nat

datatype Effect =
    Alert string
  | ConsoleError string
  | GetUserMedia
  | NodeConnect AudioNode AudioNode
  | LiveConnect SessionPromise
  | SessionClose
  | TrackStop string
  | NodeDisconnect AudioNode
  | ContextClose AudioContext
  | SourceStop nat
  | SourceStart AudioBufferSourceNode number
  | SendRealtimeInput PcmBlob
  | SendToolResponse string string

subsection \<open>The hook's state\<close>

record State =
  connectionState :: ConnectionState
  detectedLanguage :: string
  messages :: "ChatMessage list"
  inputContextRef :: "AudioContext option"
  outputContextRef :: "AudioContext option"
  inputAnalyserRef :: "AnalyserNode option"
  outputAnalyserRef :: "AnalyserNode option"
  processorRef :: "ScriptProcessorNode option"
  sourceRef :: "MediaStreamAudioSourceNode option"
  streamRef :: "MediaStream option"
  sessionPromiseRef :: "SessionPromise option"
  nextStartTimeRef :: number
  scheduledSourcesRef :: "AudioBufferSourceNode list"
  currentInputTransRef :: js_string
  currentOutputTransRef :: js_string
  created :: nat
  effects :: "Effect list"

text \<open>\<open>scheduledSourcesRef\<close> is a JavaScript \<^verbatim>\<open>Set\<close>: a list in insertion order without
  repetition. \<open>created\<close> counts the buffer sources created so far and gives each new one
  its identity.\<close>

definition useLiveTranslator :: State where
  "useLiveTranslator =
     \<lparr> connectionState = DISCONNECTED,
       detectedLanguage = ''Waiting for speech...'',
       messages = [],
       inputContextRef = None,
       outputContextRef = None,
       inputAnalyserRef = None,
       outputAnalyserRef = None,
       processorRef = None,
       sourceRef = None,
       streamRef = None,
       sessionPromiseRef = None,
       nextStartTimeRef = Finite 0,
       scheduledSourcesRef = [],
       currentInputTransRef = [],
       currentOutputTransRef = [],
       created = 0,
       effects = [] \<rparr>"

definition emit :: "Effect list \<Rightarrow> State \<Rightarrow> State" where
  "emit es st = st\<lparr>effects := effects st @ es\<rparr>"

subsection \<open>JavaScript helpers\<close>

definition truthy :: "'a list option \<Rightarrow> bool" where
  "truthy v = (case v of None \<Rightarrow> False | Some s \<Rightarrow> s \<noteq> [])"

text \<open>The code units that \<^verbatim>\<open>String.prototype.trim\<close> strips: the WhiteSpace and
  LineTerminator productions of ECMAScript (TAB, LF, VT, FF, CR, SPACE, NBSP, the other
  space separators of Unicode, LS, PS and the byte order mark). All of them lie in the
  Basic Multilingual Plane, so each is one code unit.\<close>

definition isWhiteSpace :: "16 word \<Rightarrow> bool" where
  "isWhiteSpace c =
     (let n = unat c
      in (9 \<le> n \<and> n \<le> 13) \<or> n = 32 \<or> n = 160 \<or> n = 5760 \<or>
         (8192 \<le> n \<and> n \<le> 8202) \<or> n = 8232 \<or> n = 8233 \<or> n = 8239 \<or>
         n = 8287 \<or> n = 12288 \<or> n = 65279)"

definition trim :: "js_string \<Rightarrow> js_string" where
  "trim s = rev (dropWhile isWhiteSpace (rev (dropWhile isWhiteSpace s)))"

fun digits :: "nat \<Rightarrow> string" where
  "digits n =
     (if n < 10 then [char_of (48 + n)] else digits (n div 10) @ [char_of (48 + n mod 10)])"

declare digits.simps [simp del]

definition toString :: "int \<Rightarrow> string" where
  "toString i = (if i < 0 then CHR ''-'' # digits (nat (- i)) else digits (nat i))"

definition set_add :: "AudioBufferSourceNode \<Rightarrow> AudioBufferSourceNode list \<Rightarrow> AudioBufferSourceNode list" where
  "set_add s xs = (if s \<in> set xs then xs else xs @ [s])"

definition set_delete :: "AudioBufferSourceNode \<Rightarrow> AudioBufferSourceNode list \<Rightarrow> AudioBufferSourceNode list" where
  "set_delete s xs = filter (\<lambda>x. x \<noteq> s) xs"

subsection \<open>\<^verbatim>\<open>disconnect\<close>\<close>

text \<open>Lines 48 to 76: the tear-down that follows the session block.\<close>

definition disconnect_cleanup :: "State \<Rightarrow> State" where
  "disconnect_cleanup st =
     (let s1 = (case streamRef st of None \<Rightarrow> st
                | Some stream \<Rightarrow> (emit (map TrackStop (tracks stream)) st)\<lparr>streamRef := None\<rparr>);
          s2 = (case processorRef s1 of None \<Rightarrow> s1
                | Some _ \<Rightarrow> (emit [NodeDisconnect ProcessorNode] s1)\<lparr>processorRef := None\<rparr>);
          s3 = (case sourceRef s2 of None \<Rightarrow> s2
                | Some _ \<Rightarrow> (emit [NodeDisconnect MicSourceNode] s2)\<lparr>sourceRef := None\<rparr>);
          s4 = (case inputContextRef s3 of None \<Rightarrow> s3
                | Some c \<Rightarrow> (emit [ContextClose c] s3)\<lparr>inputContextRef := None\<rparr>);
          s5 = (emit (map (\<lambda>s. SourceStop (node_id s)) (scheduledSourcesRef s4)) s4)
                 \<lparr>scheduledSourcesRef := []\<rparr>;
          s6 = (case outputContextRef s5 of None \<Rightarrow> s5
                | Some c \<Rightarrow> (emit [ContextClose c] s5)\<lparr>outputContextRef := None\<rparr>)
      in s6\<lparr>detectedLanguage := ''Waiting for speech...''\<rparr>)"

text \<open>What a call \<^verbatim>\<open>disconnect()\<close> runs before it returns its promise: with a session promise
  in the ref it stops at \<^verbatim>\<open>await sessionPromiseRef.current\<close>; without one there is no
  \<^verbatim>\<open>await\<close> and the whole body runs.\<close>

definition disconnect :: "State \<Rightarrow> State" where
  "disconnect st =
     (let s1 = st\<lparr>connectionState := DISCONNECTED\<rparr>
      in case sessionPromiseRef s1 of
           Some _ \<Rightarrow> s1
         | None \<Rightarrow> disconnect_cleanup s1)"

datatype AwaitSession = SessionResolved | SessionResolvedCloseThrows | SessionRejected

text \<open>The rest of \<^verbatim>\<open>disconnect\<close>, once the awaited session promise has settled.\<close>

definition disconnect_resume :: "AwaitSession \<Rightarrow> State \<Rightarrow> State" where
  "disconnect_resume r st =
     (let s1 = (case r of
                  SessionResolved \<Rightarrow> emit [SessionClose] st
                | SessionResolvedCloseThrows \<Rightarrow>
                    emit [SessionClose, ConsoleError ''Error closing session''] st
                | SessionRejected \<Rightarrow> emit [ConsoleError ''Error closing session''] st)
      in disconnect_cleanup (s1\<lparr>sessionPromiseRef := None\<rparr>))"

subsection \<open>\<^verbatim>\<open>connect\<close>\<close>

datatype ConnectThrow =
  ThrowGoogleGenAI | ThrowInputContext | ThrowOutputContext | ThrowGetUserMedia

datatype GetUserMediaResult = StreamRejected | StreamResolved MediaStream

definition connect_catch :: "State \<Rightarrow> State" where
  "connect_catch st = (emit [ConsoleError ''Connection failed:''] st)\<lparr>connectionState := ERROR\<rparr>"

text \<open>\<^verbatim>\<open>connect\<close> up to \<^verbatim>\<open>await navigator.mediaDevices.getUserMedia\<close>. \<open>thr\<close> names the
  statement of the \<^verbatim>\<open>try\<close> block that throws, if one does.\<close>

definition connect :: "Deps \<Rightarrow> string \<Rightarrow> ConnectThrow option \<Rightarrow> State \<Rightarrow> State" where
  "connect D apiKey thr st =
     (if apiKey = [] then emit [Alert ''Please provide a valid API Key.''] st
      else
        let s1 = st\<lparr>connectionState := CONNECTING\<rparr> in
        if thr = Some ThrowGoogleGenAI \<or> thr = Some ThrowInputContext then connect_catch s1
        else
          let s2 = s1\<lparr>inputContextRef := Some \<lparr>sampleRate = AUDIO_INPUT_SAMPLE_RATE D\<rparr>\<rparr> in
          if thr = Some ThrowOutputContext then connect_catch s2
          else
            let s3 = s2\<lparr>outputContextRef := Some \<lparr>sampleRate = AUDIO_OUTPUT_SAMPLE_RATE D\<rparr>,
                        inputAnalyserRef := Some \<lparr>fftSize = 256\<rparr>,
                        outputAnalyserRef := Some \<lparr>fftSize = 256\<rparr>\<rparr> in
            if thr = Some ThrowGetUserMedia then connect_catch s3
            else emit [GetUserMedia] s3)"

text \<open>\<^verbatim>\<open>connect\<close> after the \<^verbatim>\<open>await\<close>. A method call on a ref that is \<^verbatim>\<open>null\<close> by now, or
  \<^verbatim>\<open>connect(null)\<close>, is a TypeError and lands in the \<^verbatim>\<open>catch\<close>.\<close>

definition connect_resume :: "Deps \<Rightarrow> string \<Rightarrow> GetUserMediaResult \<Rightarrow> State \<Rightarrow> State" where
  "connect_resume D targetLanguage r st =
     (case r of
        StreamRejected \<Rightarrow> connect_catch st
      | StreamResolved stream \<Rightarrow>
          let s1 = st\<lparr>streamRef := Some stream\<rparr> in
          (case inputContextRef s1 of
             None \<Rightarrow> connect_catch s1
           | Some _ \<Rightarrow>
               let s2 = s1\<lparr>sourceRef := Some \<lparr>mediaStream = stream\<rparr>\<rparr>;
                   s3 = s2\<lparr>processorRef :=
                            Some \<lparr>bufferSize = 4096, numberOfInputChannels = 1,
                                  numberOfOutputChannels = 1, onaudioprocess_set = False\<rparr>\<rparr>
               in (case inputAnalyserRef s3 of
                     None \<Rightarrow> connect_catch s3
                   | Some _ \<Rightarrow>
                       let p = \<lparr>session_model = GEMINI_MODEL D,
                                session_targetLanguage = targetLanguage\<rparr>
                       in (emit [NodeConnect MicSourceNode InputAnalyserNode,
                                 NodeConnect InputAnalyserNode ProcessorNode,
                                 NodeConnect ProcessorNode InputDestination,
                                 LiveConnect p] s3)\<lparr>sessionPromiseRef := Some p\<rparr>)))"

subsection \<open>The session callbacks\<close>

text \<open>\<^verbatim>\<open>outputContextRef.current?.currentTime || 0\<close>: the reading, unless it is falsy (zero or
  \<open>NaN\<close>) or there is no context.\<close>

definition onopen :: "number \<Rightarrow> State \<Rightarrow> State" where
  "onopen currentTime st =
     (let s1 = st\<lparr>connectionState := CONNECTED,
                  nextStartTimeRef :=
                    (case outputContextRef st of
                       None \<Rightarrow> Finite 0
                     | Some _ \<Rightarrow>
                         if currentTime = Finite 0 \<or> currentTime = NaN then Finite 0
                         else currentTime)\<rparr>
      in case processorRef s1 of
           None \<Rightarrow> s1
         | Some p \<Rightarrow> s1\<lparr>processorRef := Some (p\<lparr>onaudioprocess_set := True\<rparr>)\<rparr>)"

text \<open>The handler that \<^verbatim>\<open>onopen\<close> installs on the script processor. \<^verbatim>\<open>getChannelData(0)\<close>
  throws on a buffer without channels. The send is issued through
  \<^verbatim>\<open>sessionPromiseRef.current.then\<close>.\<close>

definition onaudioprocess :: "Deps \<Rightarrow> AudioProcessingEvent \<Rightarrow> State \<Rightarrow> State" where
  "onaudioprocess D e st =
     (case inputBuffer e of
        [] \<Rightarrow> st
      | inputData # _ \<Rightarrow>
          let pcmBlob = createPcmBlob D inputData (AUDIO_INPUT_SAMPLE_RATE D)
          in (case sessionPromiseRef st of
                None \<Rightarrow> st
              | Some _ \<Rightarrow> emit [SendRealtimeInput pcmBlob] st))"

record MsgEnv =
  dateNow :: "nat \<Rightarrow> int"
  currentTime :: number

text \<open>\<open>dateNow env k\<close> is what the \<open>k\<close>-th call of \<^verbatim>\<open>Date.now()\<close> in this handler returns;
  \<open>currentTime env\<close> is \<^verbatim>\<open>ctx.currentTime\<close> as read at line 253.\<close>

definition report_language :: "FunctionCall \<Rightarrow> State \<Rightarrow> State" where
  "report_language fc st =
     (if fc_name fc = ''report_language'' then
        let s1 = st\<lparr>detectedLanguage := fc_args_language fc\<rparr>
        in case sessionPromiseRef s1 of
             None \<Rightarrow> s1
           | Some _ \<Rightarrow> emit [SendToolResponse (fc_id fc) (fc_name fc)] s1
      else st)"

definition onmessage_toolCall :: "LiveServerMessage \<Rightarrow> State \<Rightarrow> State" where
  "onmessage_toolCall message st =
     (case toolCall message of
        None \<Rightarrow> st
      | Some tc \<Rightarrow> foldl (\<lambda>s fc. report_language fc s) st (functionCalls tc))"

definition inputTxt :: "LiveServerMessage \<Rightarrow> js_string option" where
  "inputTxt message =
     (case serverContent message of
        None \<Rightarrow> None
      | Some sc \<Rightarrow> (case inputTranscription sc of None \<Rightarrow> None | Some t \<Rightarrow> transcription_text t))"

definition outputTxt :: "LiveServerMessage \<Rightarrow> js_string option" where
  "outputTxt message =
     (case serverContent message of
        None \<Rightarrow> None
      | Some sc \<Rightarrow> (case outputTranscription sc of None \<Rightarrow> None | Some t \<Rightarrow> transcription_text t))"

definition isTurnComplete :: "LiveServerMessage \<Rightarrow> bool" where
  "isTurnComplete message =
     (case serverContent message of
        None \<Rightarrow> False
      | Some sc \<Rightarrow> (case turnComplete sc of None \<Rightarrow> False | Some b \<Rightarrow> b))"

definition base64Audio :: "LiveServerMessage \<Rightarrow> string option" where
  "base64Audio message =
     (case serverContent message of
        None \<Rightarrow> None
      | Some sc \<Rightarrow>
          (case modelTurn sc of
             None \<Rightarrow> None
           | Some mt \<Rightarrow>
               (case parts mt of
                  None \<Rightarrow> None
                | Some [] \<Rightarrow> None
                | Some (p # _) \<Rightarrow>
                    (case inlineData p of None \<Rightarrow> None | Some d \<Rightarrow> inline_data d))))"

definition onmessage_transcriptions :: "LiveServerMessage \<Rightarrow> State \<Rightarrow> State" where
  "onmessage_transcriptions message st =
     (let s1 = (if truthy (inputTxt message)
                then st\<lparr>currentInputTransRef := currentInputTransRef st @ the (inputTxt message)\<rparr>
                else st)
      in if truthy (outputTxt message)
         then s1\<lparr>currentOutputTransRef := currentOutputTransRef s1 @ the (outputTxt message)\<rparr>
         else s1)"

definition onmessage_turnComplete :: "MsgEnv \<Rightarrow> LiveServerMessage \<Rightarrow> State \<Rightarrow> State" where
  "onmessage_turnComplete env message st =
     (if isTurnComplete message then
        let userText = trim (currentInputTransRef st);
            modelText = trim (currentOutputTransRef st);
            s1 = (if userText \<noteq> [] \<or> modelText \<noteq> [] then
                    st\<lparr>messages := messages st @
                         [\<lparr>msg_id = toString (dateNow env 0), msg_text = userText,
                           sender = Sender_user, timestamp = dateNow env 1,
                           language = None, isTranslating = None\<rparr>,
                          \<lparr>msg_id = toString (dateNow env 2 + 1), msg_text = modelText,
                           sender = Sender_model, timestamp = dateNow env 3,
                           language = None, isTranslating = None\<rparr>]\<rparr>
                  else st)
        in s1\<lparr>currentInputTransRef := [], currentOutputTransRef := []\<rparr>
      else st)"

text \<open>Lines 240 to 265, which run once \<^verbatim>\<open>decodeAudioData\<close> has delivered \<open>audioBuffer\<close>.\<close>

definition schedule_playback :: "MsgEnv \<Rightarrow> AudioBuffer \<Rightarrow> State \<Rightarrow> State" where
  "schedule_playback env audioBuffer st =
     (let source = \<lparr>node_id = created st, buffer = audioBuffer\<rparr>;
          s1 = st\<lparr>created := created st + 1\<rparr>;
          s2 = (case outputAnalyserRef s1 of
                  Some _ \<Rightarrow> emit [NodeConnect (BufferSource (node_id source)) OutputAnalyserNode,
                                  NodeConnect OutputAnalyserNode OutputDestination] s1
                | None \<Rightarrow> emit [NodeConnect (BufferSource (node_id source)) OutputDestination] s1);
          now = currentTime env;
          s3 = (if num_less (nextStartTimeRef s2) now
                then s2\<lparr>nextStartTimeRef := num_add now tiny_buffer\<rparr> else s2);
          s4 = emit [SourceStart source (nextStartTimeRef s3)] s3;
          s5 = s4\<lparr>nextStartTimeRef := num_add (nextStartTimeRef s4) (duration audioBuffer)\<rparr>
      in s5\<lparr>scheduledSourcesRef := set_add source (scheduledSourcesRef s5)\<rparr>)"

definition onmessage_audio :: "Deps \<Rightarrow> MsgEnv \<Rightarrow> LiveServerMessage \<Rightarrow> State \<Rightarrow> State" where
  "onmessage_audio D env message st =
     (if truthy (base64Audio message) then
        (case outputContextRef st of
           None \<Rightarrow> st
         | Some ctx \<Rightarrow>
             (case base64ToUint8Array D (the (base64Audio message)) of
                None \<Rightarrow> st
              | Some audioData \<Rightarrow>
                  (case decodeAudioData D audioData ctx (AUDIO_OUTPUT_SAMPLE_RATE D) of
                     None \<Rightarrow> st
                   | Some audioBuffer \<Rightarrow> schedule_playback env audioBuffer st)))
      else st)"

definition onmessage :: "Deps \<Rightarrow> MsgEnv \<Rightarrow> LiveServerMessage \<Rightarrow> State \<Rightarrow> State" where
  "onmessage D env message st =
     onmessage_audio D env message
       (onmessage_turnComplete env message
          (onmessage_transcriptions message
             (onmessage_toolCall message st)))"

definition source_onended :: "AudioBufferSourceNode \<Rightarrow> State \<Rightarrow> State" where
  "source_onended source st =
     st\<lparr>scheduledSourcesRef := set_delete source (scheduledSourcesRef st)\<rparr>"

definition onclose :: "State \<Rightarrow> State" where
  "onclose st = st\<lparr>connectionState := DISCONNECTED\<rparr>"

definition onerror :: "State \<Rightarrow> State" where
  "onerror st =
     disconnect ((emit [ConsoleError ''Session error:''] st)\<lparr>connectionState := ERROR\<rparr>)"

subsection \<open>\<^verbatim>\<open>Visualizer.tsx\<close>\<close>

record Canvas =
  width :: nat
  height :: nat

datatype CanvasOp =
    RequestAnimationFrame
  | ClearRect rat rat rat rat
  | SetLineWidth rat
  | SetStrokeStyle string
  | BeginPath
  | MoveTo rat rat
  | LineTo rat rat
  | Stroke

definition frequencyBinCount :: "AnalyserNode \<Rightarrow> nat" where
  "frequencyBinCount analyser = fftSize analyser div 2"

text \<open>\<^verbatim>\<open>analyser.getByteTimeDomainData(dataArray)\<close> on the array allocated with
  \<^verbatim>\<open>new Uint8Array(bufferLength)\<close>: the readings overwrite its zeros from the front and the
  length stays \<open>bufferLength\<close>.\<close>

definition getByteTimeDomainData :: "nat \<Rightarrow> Uint8Array \<Rightarrow> Uint8Array" where
  "getByteTimeDomainData bufferLength readings = take bufferLength (readings @ replicate bufferLength 0)"

text \<open>The \<^verbatim>\<open>for\<close> loop of \<^verbatim>\<open>draw\<close>, over the entries of \<open>dataArray\<close> from index \<open>i\<close> on.\<close>

fun draw_loop :: "rat \<Rightarrow> rat \<Rightarrow> nat \<Rightarrow> rat \<Rightarrow> Uint8Array \<Rightarrow> CanvasOp list" where
  "draw_loop sliceWidth h i x [] = []"
| "draw_loop sliceWidth h i x (d # ds) =
     (let v = of_nat (unat d) / 128;
          y = (v * h) / 2
      in (if i = 0 then MoveTo x y else LineTo x y)
           # draw_loop sliceWidth h (i + 1) (x + sliceWidth) ds)"

definition draw :: "string \<Rightarrow> Canvas \<Rightarrow> AnalyserNode \<Rightarrow> Uint8Array \<Rightarrow> CanvasOp list" where
  "draw color canvas analyser readings =
     (let bufferLength = frequencyBinCount analyser;
          dataArray = getByteTimeDomainData bufferLength readings;
          sliceWidth = (of_nat (width canvas) * 1) / of_nat bufferLength
      in [RequestAnimationFrame,
          ClearRect 0 0 (of_nat (width canvas)) (of_nat (height canvas)),
          SetLineWidth 2,
          SetStrokeStyle color,
          BeginPath]
         @ draw_loop sliceWidth (of_nat (height canvas)) 0 0 dataArray
         @ [LineTo (of_nat (width canvas)) (of_nat (height canvas) / 2), Stroke])"

subsection \<open>The application as a transition system\<close>

datatype Which = InputVisualizer | OutputVisualizer

datatype Event =
    Connect string "ConnectThrow option"
  | ConnectResume string GetUserMediaResult
  | Disconnect
  | DisconnectResume AwaitSession
  | OnOpen number
  | OnMessage MsgEnv LiveServerMessage
  | OnClose
  | OnError
  | OnAudioProcess AudioProcessingEvent
  | OnEnded AudioBufferSourceNode
  | AnimationFrame Which Uint8Array

text \<open>One callback of the hook. An animation frame is not one of them. The continuations
  \<open>ConnectResume\<close> and \<open>DisconnectResume\<close> are events of their own and may follow any event:
  the runs of the model include every interleaving the browser can produce.\<close>

fun next_state :: "Deps \<Rightarrow> Event \<Rightarrow> State \<Rightarrow> State" where
  "next_state D (Connect apiKey thr) st = connect D apiKey thr st"
| "next_state D (ConnectResume targetLanguage r) st = connect_resume D targetLanguage r st"
| "next_state D Disconnect st = disconnect st"
| "next_state D (DisconnectResume r) st = disconnect_resume r st"
| "next_state D (OnOpen t) st = onopen t st"
| "next_state D (OnMessage env message) st = onmessage D env message st"
| "next_state D OnClose st = onclose st"
| "next_state D OnError st = onerror st"
| "next_state D (OnAudioProcess e) st = onaudioprocess D e st"
| "next_state D (OnEnded source) st = source_onended source st"
| "next_state D (AnimationFrame w readings) st = st"

definition run :: "Deps \<Rightarrow> Event list \<Rightarrow> State \<Rightarrow> State" where
  "run D es st = foldl (\<lambda>s e. next_state D e s) st es"

text \<open>The page: the hook and the canvases of the two visualizers (\<^verbatim>\<open>App\<close> passes them the
  colours below and \<^verbatim>\<open>isActive = (connectionState === CONNECTED)\<close>; the canvas element is
  300 by 60).\<close>

record Page =
  hook :: State
  inputCanvas :: "CanvasOp list"
  outputCanvas :: "CanvasOp list"

definition canvas_element :: Canvas where
  "canvas_element = \<lparr>width = 300, height = 60\<rparr>"

definition animation_frame :: "Which \<Rightarrow> Uint8Array \<Rightarrow> Page \<Rightarrow> Page" where
  "animation_frame w readings pg =
     (if connectionState (hook pg) = CONNECTED then
        (case w of
           InputVisualizer \<Rightarrow>
             (case inputAnalyserRef (hook pg) of
                None \<Rightarrow> pg
              | Some a \<Rightarrow> pg\<lparr>inputCanvas := inputCanvas pg @ draw ''#818cf8'' canvas_element a readings\<rparr>)
         | OutputVisualizer \<Rightarrow>
             (case outputAnalyserRef (hook pg) of
                None \<Rightarrow> pg
              | Some a \<Rightarrow> pg\<lparr>outputCanvas := outputCanvas pg @ draw ''#34d399'' canvas_element a readings\<rparr>))
      else pg)"

fun page_step :: "Deps \<Rightarrow> Event \<Rightarrow> Page \<Rightarrow> Page" where
  "page_step D (AnimationFrame w readings) pg = animation_frame w readings pg"
| "page_step D e pg = pg\<lparr>hook := next_state D e (hook pg)\<rparr>"

definition page_run :: "Deps \<Rightarrow> Event list \<Rightarrow> Page \<Rightarrow> Page" where
  "page_run D es pg = foldl (\<lambda>p e. page_step D e p) pg es"

subsection \<open>What is observed of a run\<close>

fun playback_schedule :: "Effect list \<Rightarrow> (AudioBufferSourceNode \<times> number) list" where
  "playback_schedule [] = []"
| "playback_schedule (SourceStart source t # es) = (source, t) # playback_schedule es"
| "playback_schedule (e # es) = playback_schedule es"

fun sent_chunks :: "Effect list \<Rightarrow> PcmBlob list" where
  "sent_chunks [] = []"
| "sent_chunks (SendRealtimeInput b # es) = b # sent_chunks es"
| "sent_chunks (e # es) = sent_chunks es"

text \<open>The effects a transition has added to the log.\<close>

definition emitted :: "State \<Rightarrow> State \<Rightarrow> Effect list" where
  "emitted st st' = drop (length (effects st)) (effects st')"

text \<open>The transcription fragments an event carries, and whether it closes a turn.\<close>

fun input_fragment :: "Event \<Rightarrow> js_string" where
  "input_fragment (OnMessage env message) = (case inputTxt message of None \<Rightarrow> [] | Some s \<Rightarrow> s)"
| "input_fragment e = []"

fun output_fragment :: "Event \<Rightarrow> js_string" where
  "output_fragment (OnMessage env message) = (case outputTxt message of None \<Rightarrow> [] | Some s \<Rightarrow> s)"
| "output_fragment e = []"

fun turn_boundary :: "Event \<Rightarrow> bool" where
  "turn_boundary (OnMessage env message) = isTurnComplete message"
| "turn_boundary e = False"



text \<open>An event with the analyser readings blanked out: two event lists that agree after
  \<open>erase_readings\<close> differ in the readings only.\<close>

fun erase_readings :: "Event \<Rightarrow> Event" where
  "erase_readings (AnimationFrame w readings) = AnimationFrame w []"
| "erase_readings e = e"

text \<open>The platform's contract for a script processor: every \<^verbatim>\<open>audioprocess\<close> event it
  dispatches carries \<open>numberOfInputChannels\<close> channels of \<open>bufferSize\<close> samples each.\<close>

definition delivered_by :: "ScriptProcessorNode \<Rightarrow> AudioProcessingEvent \<Rightarrow> bool" where
  "delivered_by p e =
     (length (inputBuffer e) = numberOfInputChannels p \<and>
      list_all (\<lambda>c. length c = bufferSize p) (inputBuffer e))"

text \<open>The resources that capture and playback hold.\<close>

definition resources_released :: "State \<Rightarrow> bool" where
  "resources_released st =
     (streamRef st = None \<and> processorRef st = None \<and> sourceRef st = None \<and>
      inputContextRef st = None \<and> outputContextRef st = None \<and>
      scheduledSourcesRef st = [] \<and> sessionPromiseRef st = None)"

text \<open>The platform calls that lines 48 to 76 make in a state, in the order of the code, and
  those of the session block (lines 38 to 46) for each way the awaited promise can settle.\<close>

definition teardown_calls :: "State \<Rightarrow> Effect list" where
  "teardown_calls st =
     (case streamRef st of None \<Rightarrow> [] | Some stream \<Rightarrow> map TrackStop (tracks stream)) @
     (case processorRef st of None \<Rightarrow> [] | Some _ \<Rightarrow> [NodeDisconnect ProcessorNode]) @
     (case sourceRef st of None \<Rightarrow> [] | Some _ \<Rightarrow> [NodeDisconnect MicSourceNode]) @
     (case inputContextRef st of None \<Rightarrow> [] | Some c \<Rightarrow> [ContextClose c]) @
     map (\<lambda>s. SourceStop (node_id s)) (scheduledSourcesRef st) @
     (case outputContextRef st of None \<Rightarrow> [] | Some c \<Rightarrow> [ContextClose c])"

fun session_calls :: "AwaitSession \<Rightarrow> Effect list" where
  "session_calls SessionResolved = [SessionClose]"
| "session_calls SessionResolvedCloseThrows = [SessionClose, ConsoleError ''Error closing session'']"
| "session_calls SessionRejected = [ConsoleError ''Error closing session'']"

text \<open>The effects of a tear-down, as opposed to those that acquire or use a resource.\<close>

fun is_teardown_effect :: "Effect \<Rightarrow> bool" where
  "is_teardown_effect (ConsoleError msg) = True"
| "is_teardown_effect SessionClose = True"
| "is_teardown_effect (TrackStop t) = True"
| "is_teardown_effect (NodeDisconnect n) = True"
| "is_teardown_effect (ContextClose c) = True"
| "is_teardown_effect (SourceStop n) = True"
| "is_teardown_effect e = False"

subsection \<open>Sample inputs\<close>

definition example_deps :: Deps where
  "example_deps =
     \<lparr> AUDIO_INPUT_SAMPLE_RATE = 16000,
       AUDIO_OUTPUT_SAMPLE_RATE = 24000,
       GEMINI_MODEL = ''live-model'',
       createPcmBlob = (\<lambda>samples rate. \<lparr>blob_data = ''AAAA'', mimeType = ''audio/pcm''\<rparr>),
       base64ToUint8Array = (\<lambda>s. Some (replicate (length s) 0)),
       decodeAudioData =
         (\<lambda>bytes ctx rate. if bytes = [] then None
            else Some \<lparr>duration = Finite (of_nat (length bytes) / 4)\<rparr>) \<rparr>"

definition example_env :: "rat \<Rightarrow> MsgEnv" where
  "example_env t = \<lparr>dateNow = (\<lambda>k. 1700000000000 + int k), currentTime = Finite t\<rparr>"

definition example_stream :: MediaStream where
  "example_stream = \<lparr>tracks = [''mic'']\<rparr>"

text \<open>A message with the input fragment \<^verbatim>\<open>"hola "\<close> and the output fragment \<^verbatim>\<open>"hello"\<close>, one
  whose only transcript is a no-break space, one that completes the turn and one with
  audio.\<close>

definition fragment_message :: LiveServerMessage where
  "fragment_message =
     \<lparr>toolCall = None,
      serverContent = Some
        \<lparr>inputTranscription = Some \<lparr>transcription_text = Some [0x68, 0x6F, 0x6C, 0x61, 0x20]\<rparr>,
         outputTranscription = Some \<lparr>transcription_text = Some [0x68, 0x65, 0x6C, 0x6C, 0x6F]\<rparr>,
         turnComplete = None,
         modelTurn = None\<rparr>\<rparr>"

definition nbsp_message :: LiveServerMessage where
  "nbsp_message =
     \<lparr>toolCall = None,
      serverContent = Some
        \<lparr>inputTranscription = Some \<lparr>transcription_text = Some [0xA0]\<rparr>,
         outputTranscription = None,
         turnComplete = Some True,
         modelTurn = None\<rparr>\<rparr>"

definition turn_message :: LiveServerMessage where
  "turn_message =
     \<lparr>toolCall = None,
      serverContent = Some
        \<lparr>inputTranscription = None, outputTranscription = None,
         turnComplete = Some True, modelTurn = None\<rparr>\<rparr>"

definition audio_message :: LiveServerMessage where
  "audio_message =
     \<lparr>toolCall = None,
      serverContent = Some
        \<lparr>inputTranscription = None, outputTranscription = None,
         turnComplete = None,
         modelTurn = Some \<lparr>parts = Some [\<lparr>inlineData = Some \<lparr>inline_data = Some ''AAAA''\<rparr>\<rparr>]\<rparr>\<rparr>\<rparr>"

definition mic_event :: AudioProcessingEvent where
  "mic_event = \<lparr>inputBuffer = [replicate 4096 0]\<rparr>"

definition initial_page :: Page where
  "initial_page = \<lparr>hook = useLiveTranslator, inputCanvas = [], outputCanvas = []\<rparr>"

text \<open>A session that is up: connect, microphone granted, session opened at clock 0.\<close>

definition session_up :: "Event list" where
  "session_up =
     [Connect ''key'' None, ConnectResume ''Spanish'' (StreamResolved example_stream), OnOpen (Finite 0)]"

text \<open>A second connect started while the \<^verbatim>\<open>disconnect\<close> of the first still awaits its
  session promise: when the first session opens, the pending tear-down closes it and takes
  the second session's contexts and promise away; the second session opens all the same.\<close>

definition torn_down_under_session :: "Event list" where
  "torn_down_under_session =
     [Connect ''key'' None, ConnectResume ''Spanish'' (StreamResolved example_stream),
      Disconnect,
      Connect ''key'' None, ConnectResume ''Spanish'' (StreamResolved example_stream),
      OnOpen (Finite 0),
      DisconnectResume SessionResolved,
      OnOpen (Finite 0)]"

text \<open>The server closes the first session (\<^verbatim>\<open>onclose\<close> releases nothing, so the first
  script processor keeps delivering buffers), the user connects again and then stops: the
  tear-down reaches the second session's processor only.\<close>

definition first_processor_left_running :: "Event list" where
  "first_processor_left_running =
     session_up @
     [OnClose,
      Connect ''key'' None, ConnectResume ''Spanish'' (StreamResolved example_stream), OnOpen (Finite 0),
      Disconnect, DisconnectResume SessionResolved]"

section \<open>Properties\<close>

subsection \<open>Facts about doubles\<close>

lemma round_even_of_int: "round_even (of_int i) = i"
  by (simp add: round_even_def)

lemma round_even_floor: "\<lfloor>r\<rfloor> \<le> round_even r \<and> round_even r \<le> \<lfloor>r\<rfloor> + 1"
  by (simp add: round_even_def Let_def)


lemma round_even_le: "r \<le> of_int j \<Longrightarrow> round_even r \<le> j"
proof (cases "r = of_int j")
  case True
  then show ?thesis by (simp add: round_even_of_int)
next
  case False
  assume "r \<le> of_int j"
  with False have "r < of_int j" by simp
  then have "\<lfloor>r\<rfloor> < j" by (simp add: floor_less_iff)
  then show ?thesis using round_even_floor [of r] by simp
qed

lemma two_powi_pos: "0 < power_int (2::rat) k"
  by (simp add: power_int_def)

lemma two_powi_less: "power_int (2::rat) a < power_int 2 b \<longleftrightarrow> a < b"
  by (metis less_irrefl linorder_neqE_linordered_idom one_less_numeral_iff order_less_trans power_int_strict_increasing semiring_norm(76))


lemma binade_bounds:
  assumes "0 < a"
  shows "power_int 2 (binade a) \<le> a \<and> a < power_int 2 (binade a + 1)"
proof -
  obtain n d where nd: "quotient_of a = (n, d)" by (cases "quotient_of a")
  then have d: "0 < d" by (rule quotient_of_denom_pos)
  have a: "a = of_int n / of_int d" using nd by (simp add: quotient_of_div)
  have n: "0 < n" using assms d a by (simp add: zero_less_divide_iff)
  let ?bn = "bitlen n" and ?bd = "bitlen d"
  have bn: "2 ^ nat (?bn - 1) \<le> n" "n < 2 ^ nat ?bn" using bitlen_bounds [OF n] by auto
  have bd: "2 ^ nat (?bd - 1) \<le> d" "d < 2 ^ nat ?bd" using bitlen_bounds [OF d] by auto
  have pbn: "1 \<le> ?bn" using n by (simp add: bitlen_alt_def)
  have pbd: "1 \<le> ?bd" using d by (simp add: bitlen_alt_def)
  have pw: "(of_int ((2::int) ^ k) :: rat) = power_int 2 (int k)" for k
    by simp
  have rn: "power_int 2 (?bn - 1) \<le> (of_int n :: rat)" "(of_int n :: rat) < power_int 2 ?bn"
  proof -
    have "(of_int (2 ^ nat (?bn - 1)) :: rat) \<le> of_int n" using bn(1) by (simp only: of_int_le_iff)
    then show "power_int 2 (?bn - 1) \<le> (of_int n :: rat)"
      using pbn by (simp only: pw) simp
    have "(of_int n :: rat) < of_int (2 ^ nat ?bn)" using bn(2) by (simp only: of_int_less_iff)
    then show "(of_int n :: rat) < power_int 2 ?bn"
      using pbn by (simp only: pw) simp
  qed
  have rd: "power_int 2 (?bd - 1) \<le> (of_int d :: rat)" "(of_int d :: rat) < power_int 2 ?bd"
  proof -
    have "(of_int (2 ^ nat (?bd - 1)) :: rat) \<le> of_int d" using bd(1) by (simp only: of_int_le_iff)
    then show "power_int 2 (?bd - 1) \<le> (of_int d :: rat)"
      using pbd by (simp only: pw) simp
    have "(of_int d :: rat) < of_int (2 ^ nat ?bd)" using bd(2) by (simp only: of_int_less_iff)
    then show "(of_int d :: rat) < power_int 2 ?bd"
      using pbd by (simp only: pw) simp
  qed
  have dpos: "(0::rat) < of_int d" using d by simp
  have upper: "a < power_int 2 (?bn - ?bd + 1)"
  proof -
    have "a < power_int 2 ?bn / power_int 2 (?bd - 1)"
      unfolding a
    proof (rule frac_less)
      show "(0::rat) \<le> of_int n" using n by simp
      show "(of_int n :: rat) < power_int 2 ?bn" by (rule rn(2))
      show "(0::rat) < power_int 2 (?bd - 1)" by (rule two_powi_pos)
      show "power_int 2 (?bd - 1) \<le> (of_int d :: rat)" by (rule rd(1))
    qed
    also have "\<dots> = power_int 2 (?bn - (?bd - 1))"
      by (simp add: power_int_diff)
    finally show ?thesis by (simp add: algebra_simps)
  qed
  have lower: "power_int 2 (?bn - ?bd - 1) \<le> a"
  proof -
    have "power_int 2 (?bn - 1) / power_int 2 ?bd \<le> a"
      unfolding a
    proof (rule frac_le)
      show "(0::rat) \<le> of_int n" using n by simp
      show "power_int 2 (?bn - 1) \<le> (of_int n :: rat)" by (rule rn(1))
      show "(0::rat) < of_int d" by (rule dpos)
      show "(of_int d :: rat) \<le> power_int 2 ?bd" using rd(2) by simp
    qed
    moreover have "power_int (2::rat) (?bn - 1) / power_int 2 ?bd = power_int 2 ((?bn - 1) - ?bd)"
      by (simp add: power_int_diff)
    ultimately show ?thesis by (simp add: algebra_simps)
  qed
  show ?thesis
  proof (cases "power_int 2 (?bn - ?bd) \<le> a")
    case True
    then have "binade a = ?bn - ?bd" by (simp add: binade_def nd)
    then show ?thesis using True upper by simp
  next
    case False
    then have b: "binade a = ?bn - ?bd - 1" by (simp add: binade_def nd)
    from False have "a < power_int 2 (?bn - ?bd)" by simp
    then show ?thesis using lower by (simp add: b)
  qed
qed

lemma binade_unique:
  assumes "0 < a" "power_int 2 e \<le> a" "a < power_int 2 (e + 1)"
  shows "binade a = e"
proof -
  from binade_bounds [OF assms(1)] have b: "power_int 2 (binade a) \<le> a" "a < power_int 2 (binade a + 1)"
    by simp_all
  have "power_int (2::rat) e < power_int 2 (binade a + 1)" using assms(2) b(2) by simp
  then have 1: "e < binade a + 1" by (simp add: two_powi_less)
  have "power_int (2::rat) (binade a) < power_int 2 (e + 1)" using assms(3) b(1) by simp
  then have 2: "binade a < e + 1" by (simp add: two_powi_less)
  from 1 2 show ?thesis by simp
qed




lemma two_powi_scale: "power_int (2::rat) (E - 52) * 2 ^ 52 = power_int 2 E"
  by (simp add: power_int_diff del: power_int_numeral_neg_numeral)

lemma two_powi_Suc: "power_int (2::rat) (E + 1) = 2 * power_int 2 E"
  by (simp add: power_int_add del: power_int_numeral_neg_numeral)

lemma of_int_two_power: "(of_int ((2::int) ^ k) :: rat) = 2 ^ k"
  by simp







lemma to_double_pos:
  assumes "0 < a"
  shows "to_double a =
     (if power_int 2 1024 \<le> round_magnitude a then Infinity else Finite (round_magnitude a))"
  using assms by (simp add: to_double_def Let_def del: power_int_numeral)

lemma ratio_normal:
  assumes a: "0 < a" and e: "- 1022 \<le> binade a"
  shows "quantum a = power_int 2 (binade a - 52)"
    and "of_int (2 ^ 52) \<le> a / quantum a" and "a / quantum a < of_int (2 ^ 53)"
proof -
  define q where "q = power_int (2::rat) (binade a - 52)"
  define P where "P = (2::rat) ^ 52"
  have "max (binade a) (- 1022) = binade a" using e by (simp add: max_def)
  then show qa: "quantum a = power_int 2 (binade a - 52)" by (simp only: quantum_def)
  have q: "0 < q" unfolding q_def by (rule two_powi_pos)
  have PE: "P * q = power_int 2 (binade a)"
    unfolding q_def P_def using two_powi_scale [of "binade a"] by (simp only: mult.commute)
  from binade_bounds [OF a] have b: "P * q \<le> a" "a < 2 * (P * q)"
    by (simp_all only: PE two_powi_Suc)
  have "P \<le> a / q" using b(1) q by (simp add: pos_le_divide_eq)
  then show "of_int (2 ^ 52) \<le> a / quantum a"
    by (simp only: qa q_def [symmetric] of_int_two_power P_def)
  have "a < (2 * P) * q" using b(2) by (simp only: mult.assoc)
  then have "a / q < 2 * P" using q by (simp add: pos_divide_less_eq)
  moreover have "2 * P = (2::rat) ^ 53" unfolding P_def by simp
  ultimately show "a / quantum a < of_int (2 ^ 53)"
    by (simp only: qa q_def [symmetric] of_int_two_power)
qed




lemma round_even_nearest:
  assumes "\<bar>r - of_int i\<bar> < 1 / 2 \<or> (\<bar>r - of_int i\<bar> = 1 / 2 \<and> even i)"
  shows "round_even r = i"
proof (cases "of_int i \<le> r")
  case True
  then have "r < of_int i + 1" using assms by linarith
  then have f: "\<lfloor>r\<rfloor> = i" using True by linarith
  show ?thesis using assms True unfolding round_even_def Let_def f by auto
next
  case False
  then have "of_int i - 1 \<le> r" "r < of_int i" using assms by linarith+
  then have f: "\<lfloor>r\<rfloor> = i - 1" by linarith
  show ?thesis using assms False unfolding round_even_def Let_def f by auto
qed

text \<open>Rounding a value whose binade is known.\<close>

lemma to_double_binade:
  assumes a: "0 < a" and lo: "power_int 2 E \<le> a" and hi: "a < power_int 2 (E + 1)"
    and E: "- 1022 \<le> E" "E \<le> 1022"
    and near: "\<bar>a / power_int 2 (E - 52) - of_int i\<bar> < 1 / 2 \<or>
      (\<bar>a / power_int 2 (E - 52) - of_int i\<bar> = 1 / 2 \<and> even i)"
  shows "to_double a = Finite (of_int i * power_int 2 (E - 52))"
proof -
  have i: "round_even (a / power_int 2 (E - 52)) = i"
    using near by (rule round_even_nearest)
  have b: "binade a = E" using a lo hi by (rule binade_unique)
  have n: "- 1022 \<le> binade a" using E(1) by (simp only: b)
  note rn = ratio_normal [OF a n]
  have q: "quantum a = power_int 2 (E - 52)" using rn(1) by (simp only: b)
  have rm: "round_magnitude a = of_int i * power_int 2 (E - 52)"
    by (simp only: round_magnitude_def q i)
  have "a / power_int 2 (E - 52) \<le> of_int (2 ^ 53)" using rn(3) by (simp only: q)
  then have "i \<le> 2 ^ 53" unfolding i [symmetric] by (rule round_even_le)
  then have "(of_int i :: rat) \<le> of_int (2 ^ 53)" by (simp only: of_int_le_iff)
  then have "(of_int i :: rat) * power_int 2 (E - 52) \<le> of_int (2 ^ 53) * power_int 2 (E - 52)"
    using two_powi_pos [of "E - 52"] by (simp only: mult_le_cancel_right_pos)
  also have "(of_int (2 ^ 53) :: rat) * power_int 2 (E - 52) = 2 * (power_int 2 (E - 52) * 2 ^ 52)"
    by simp
  also have "\<dots> = power_int 2 (E + 1)"
    by (simp only: two_powi_scale two_powi_Suc)
  also have "\<dots> < power_int 2 1024"
    using E(2) by (simp only: two_powi_less)
  finally have "round_magnitude a < power_int 2 1024" by (simp only: rm)
  then have "\<not> power_int 2 1024 \<le> round_magnitude a" by (simp only: not_le)
  then show ?thesis by (simp only: to_double_pos [OF a] if_False rm)
qed

lemma tiny_buffer_value: "tiny_buffer = Finite (3602879701896397 / 72057594037927936)"
  unfolding tiny_buffer_def
  using to_double_binade [of "1 / 20" "- 5" 7205759403792794]
  by simp










lemma num_add_positive:
  "0 < a + b \<Longrightarrow> power_int 2 E \<le> a + b \<Longrightarrow> a + b < power_int 2 (E + 1) \<Longrightarrow>
   - 1022 \<le> E \<Longrightarrow> E \<le> 1022 \<Longrightarrow>
   \<bar>(a + b) / power_int 2 (E - 52) - of_int i\<bar> < 1 / 2 \<or>
     (\<bar>(a + b) / power_int 2 (E - 52) - of_int i\<bar> = 1 / 2 \<and> even i) \<Longrightarrow>
   num_add (Finite a) (Finite b) = Finite (of_int i * power_int 2 (E - 52))"
  unfolding num_add_def by (simp only: number.case to_double_binade)

lemma add_eval:
  "num_add (Finite 2) tiny_buffer = Finite (2308094809027379 / 1125899906842624)"
  "num_add (Finite (2308094809027379 / 1125899906842624)) (Finite 1) = Finite (3433994715870003 / 1125899906842624)"
  "num_add (Finite 4) tiny_buffer = Finite (4559894622712627 / 1125899906842624)"
  "num_add (Finite (4559894622712627 / 1125899906842624)) (Finite 1) = Finite (5685794529555251 / 1125899906842624)"
  "num_add (Finite (5685794529555251 / 1125899906842624)) (Finite 1) = Finite (6811694436397875 / 1125899906842624)"
  "num_add (Finite (3602879701896397 / 36028797018963968)) tiny_buffer = Finite (1351079888211149 / 9007199254740992)"
  "num_add (Finite (1351079888211149 / 9007199254740992)) (Finite 1) = Finite (2589569785738035 / 2251799813685248)"
  "num_add (Finite 9007199254740992) tiny_buffer = Finite 9007199254740992"
  "num_add (Finite 9007199254740992) (Finite 1) = Finite 9007199254740992"
  unfolding tiny_buffer_value
  using num_add_positive [of 2 "3602879701896397 / 72057594037927936" 1 4616189618054758]
    num_add_positive [of "2308094809027379 / 1125899906842624" 1 1 6867989431740006]
    num_add_positive [of 4 "3602879701896397 / 72057594037927936" 2 4559894622712627]
    num_add_positive [of "4559894622712627 / 1125899906842624" 1 2 5685794529555251]
    num_add_positive [of "5685794529555251 / 1125899906842624" 1 2 6811694436397875]
    num_add_positive [of "3602879701896397 / 36028797018963968" "3602879701896397 / 72057594037927936" "- 3" 5404319552844596]
    num_add_positive [of "1351079888211149 / 9007199254740992" 1 0 5179139571476070]
    num_add_positive [of 9007199254740992 "3602879701896397 / 72057594037927936" 53 4503599627370496]
    num_add_positive [of 9007199254740992 1 53 4503599627370496]
  by simp_all



subsection \<open>The effect log\<close>

lemma emit_simps [simp]:
  "connectionState (emit es st) = connectionState st"
  "detectedLanguage (emit es st) = detectedLanguage st"
  "messages (emit es st) = messages st"
  "inputContextRef (emit es st) = inputContextRef st"
  "outputContextRef (emit es st) = outputContextRef st"
  "inputAnalyserRef (emit es st) = inputAnalyserRef st"
  "outputAnalyserRef (emit es st) = outputAnalyserRef st"
  "processorRef (emit es st) = processorRef st"
  "sourceRef (emit es st) = sourceRef st"
  "streamRef (emit es st) = streamRef st"
  "sessionPromiseRef (emit es st) = sessionPromiseRef st"
  "nextStartTimeRef (emit es st) = nextStartTimeRef st"
  "scheduledSourcesRef (emit es st) = scheduledSourcesRef st"
  "currentInputTransRef (emit es st) = currentInputTransRef st"
  "currentOutputTransRef (emit es st) = currentOutputTransRef st"
  "created (emit es st) = created st"
  "effects (emit es st) = effects st @ es"
  by (simp_all add: emit_def)

lemma playback_schedule_append:
  "playback_schedule (xs @ ys) = playback_schedule xs @ playback_schedule ys"
  by (induction xs rule: playback_schedule.induct) simp_all

lemma sent_chunks_append:
  "sent_chunks (xs @ ys) = sent_chunks xs @ sent_chunks ys"
  by (induction xs rule: sent_chunks.induct) simp_all

lemma playback_schedule_TrackStop [simp]: "playback_schedule (map TrackStop xs) = []"
  by (induction xs) simp_all

lemma playback_schedule_SourceStop [simp]:
  "playback_schedule (map (\<lambda>s. SourceStop (f s)) xs) = []"
  by (induction xs) simp_all

lemma sent_chunks_TrackStop [simp]: "sent_chunks (map TrackStop xs) = []"
  by (induction xs) simp_all

lemma sent_chunks_SourceStop [simp]:
  "sent_chunks (map (\<lambda>s. SourceStop (f s)) xs) = []"
  by (induction xs) simp_all

lemma emitted_append [simp]: "effects st' = effects st @ es \<Longrightarrow> emitted st st' = es"
  by (simp add: emitted_def)

subsection \<open>Facts about the tear-down\<close>

lemma disconnect_cleanup_frame:
  "messages (disconnect_cleanup st) = messages st"
  "connectionState (disconnect_cleanup st) = connectionState st"
  "nextStartTimeRef (disconnect_cleanup st) = nextStartTimeRef st"
  "sessionPromiseRef (disconnect_cleanup st) = sessionPromiseRef st"
  "currentInputTransRef (disconnect_cleanup st) = currentInputTransRef st"
  "currentOutputTransRef (disconnect_cleanup st) = currentOutputTransRef st"
  by (simp_all add: disconnect_cleanup_def Let_def split: option.splits)

lemma disconnect_cleanup_resources:
  "streamRef (disconnect_cleanup st) = None"
  "processorRef (disconnect_cleanup st) = None"
  "sourceRef (disconnect_cleanup st) = None"
  "inputContextRef (disconnect_cleanup st) = None"
  "outputContextRef (disconnect_cleanup st) = None"
  "scheduledSourcesRef (disconnect_cleanup st) = []"
  "detectedLanguage (disconnect_cleanup st) = ''Waiting for speech...''"
  by (simp_all add: disconnect_cleanup_def Let_def split: option.splits)



subsection \<open>Facts about each operation\<close>

lemma disconnect_frame:
  "messages (disconnect st) = messages st"
  "nextStartTimeRef (disconnect st) = nextStartTimeRef st"
  "connectionState (disconnect st) = DISCONNECTED"
  "currentInputTransRef (disconnect st) = currentInputTransRef st"
  "currentOutputTransRef (disconnect st) = currentOutputTransRef st"
  by (simp_all add: disconnect_def Let_def disconnect_cleanup_frame split: option.splits)


lemma disconnect_resume_frame:
  "messages (disconnect_resume r st) = messages st"
  "nextStartTimeRef (disconnect_resume r st) = nextStartTimeRef st"
  "connectionState (disconnect_resume r st) = connectionState st"
  "currentInputTransRef (disconnect_resume r st) = currentInputTransRef st"
  "currentOutputTransRef (disconnect_resume r st) = currentOutputTransRef st"
  by (simp_all add: disconnect_resume_def Let_def disconnect_cleanup_frame split: AwaitSession.splits)


lemma connect_catch_simps [simp]:
  "messages (connect_catch st) = messages st"
  "nextStartTimeRef (connect_catch st) = nextStartTimeRef st"
  "connectionState (connect_catch st) = ERROR"
  "sessionPromiseRef (connect_catch st) = sessionPromiseRef st"
  "currentInputTransRef (connect_catch st) = currentInputTransRef st"
  "currentOutputTransRef (connect_catch st) = currentOutputTransRef st"
  "effects (connect_catch st) = effects st @ [ConsoleError ''Connection failed:'']"
  by (simp_all add: connect_catch_def)

lemma connect_frame:
  "messages (connect D k thr st) = messages st"
  "nextStartTimeRef (connect D k thr st) = nextStartTimeRef st"
  "sessionPromiseRef (connect D k thr st) = sessionPromiseRef st"
  "currentInputTransRef (connect D k thr st) = currentInputTransRef st"
  "currentOutputTransRef (connect D k thr st) = currentOutputTransRef st"
  by (simp_all add: connect_def Let_def)


lemma connect_connectionState:
  "connectionState (connect D k thr st) =
     (if k = [] then connectionState st else if thr = None then CONNECTING else ERROR)"
  by (cases thr; simp add: connect_def Let_def) (metis ConnectThrow.exhaust)

lemma connect_resume_frame:
  "messages (connect_resume D lang r st) = messages st"
  "nextStartTimeRef (connect_resume D lang r st) = nextStartTimeRef st"
  "currentInputTransRef (connect_resume D lang r st) = currentInputTransRef st"
  "currentOutputTransRef (connect_resume D lang r st) = currentOutputTransRef st"
  by (simp_all add: connect_resume_def Let_def split: GetUserMediaResult.splits option.splits)


lemma connect_resume_connectionState:
  "connectionState (connect_resume D lang r st) = connectionState st \<or>
   connectionState (connect_resume D lang r st) = ERROR \<and>
     sessionPromiseRef (connect_resume D lang r st) = sessionPromiseRef st"
  by (simp add: connect_resume_def Let_def split: GetUserMediaResult.splits option.splits)


lemma onopen_frame:
  "messages (onopen t st) = messages st"
  "connectionState (onopen t st) = CONNECTED"
  "effects (onopen t st) = effects st"
  "currentInputTransRef (onopen t st) = currentInputTransRef st"
  "currentOutputTransRef (onopen t st) = currentOutputTransRef st"
  by (simp_all add: onopen_def Let_def split: option.splits)

lemma onclose_frame:
  "messages (onclose st) = messages st"
  "nextStartTimeRef (onclose st) = nextStartTimeRef st"
  "connectionState (onclose st) = DISCONNECTED"
  "effects (onclose st) = effects st"
  "currentInputTransRef (onclose st) = currentInputTransRef st"
  "currentOutputTransRef (onclose st) = currentOutputTransRef st"
  by (simp_all add: onclose_def)

lemma onerror_frame:
  "messages (onerror st) = messages st"
  "nextStartTimeRef (onerror st) = nextStartTimeRef st"
  "connectionState (onerror st) = DISCONNECTED"
  "currentInputTransRef (onerror st) = currentInputTransRef st"
  "currentOutputTransRef (onerror st) = currentOutputTransRef st"
  by (simp_all add: onerror_def disconnect_frame)


lemma onaudioprocess_frame:
  "messages (onaudioprocess D e st) = messages st"
  "nextStartTimeRef (onaudioprocess D e st) = nextStartTimeRef st"
  "connectionState (onaudioprocess D e st) = connectionState st"
  "currentInputTransRef (onaudioprocess D e st) = currentInputTransRef st"
  "currentOutputTransRef (onaudioprocess D e st) = currentOutputTransRef st"
  by (simp_all add: onaudioprocess_def Let_def split: list.splits option.splits)


lemma source_onended_frame:
  "messages (source_onended s st) = messages st"
  "nextStartTimeRef (source_onended s st) = nextStartTimeRef st"
  "connectionState (source_onended s st) = connectionState st"
  "effects (source_onended s st) = effects st"
  "currentInputTransRef (source_onended s st) = currentInputTransRef st"
  "currentOutputTransRef (source_onended s st) = currentOutputTransRef st"
  by (simp_all add: source_onended_def)

subsection \<open>Facts about \<^verbatim>\<open>onmessage\<close>\<close>

lemma report_language_shape:
  "\<exists>l es. report_language fc st = st\<lparr>detectedLanguage := l, effects := effects st @ es\<rparr>
      \<and> playback_schedule es = [] \<and> sent_chunks es = []"
proof (cases "fc_name fc = ''report_language''")
  case False
  then have "report_language fc st = st\<lparr>detectedLanguage := detectedLanguage st, effects := effects st @ []\<rparr>"
    by (simp add: report_language_def)
  then show ?thesis by (metis playback_schedule.simps(1) sent_chunks.simps(1))
next
  case True
  show ?thesis
  proof (cases "sessionPromiseRef st")
    case None
    with True have "report_language fc st = st\<lparr>detectedLanguage := fc_args_language fc, effects := effects st @ []\<rparr>"
      by (simp add: report_language_def)
    then show ?thesis by (metis playback_schedule.simps(1) sent_chunks.simps(1))
  next
    case (Some p)
    with True have "report_language fc st = st\<lparr>detectedLanguage := fc_args_language fc,
        effects := effects st @ [SendToolResponse (fc_id fc) (fc_name fc)]\<rparr>"
      by (simp add: report_language_def emit_def)
    moreover have "playback_schedule [SendToolResponse (fc_id fc) (fc_name fc)] = []"
      "sent_chunks [SendToolResponse (fc_id fc) (fc_name fc)] = []" by simp_all
    ultimately show ?thesis by blast
  qed
qed

lemma toolCalls_shape:
  "\<exists>l es. foldl (\<lambda>s fc. report_language fc s) st fcs = st\<lparr>detectedLanguage := l, effects := effects st @ es\<rparr>
      \<and> playback_schedule es = [] \<and> sent_chunks es = []"
proof (induction fcs arbitrary: st)
  case Nil
  have "st = st\<lparr>detectedLanguage := detectedLanguage st, effects := effects st @ []\<rparr>" by simp
  then show ?case by (metis foldl_Nil playback_schedule.simps(1) sent_chunks.simps(1))
next
  case (Cons fc fcs)
  obtain l es where 1: "report_language fc st = st\<lparr>detectedLanguage := l, effects := effects st @ es\<rparr>"
    "playback_schedule es = []" "sent_chunks es = []"
    using report_language_shape by blast
  obtain l' es' where 2: "foldl (\<lambda>s fc. report_language fc s) (report_language fc st) fcs
      = (report_language fc st)\<lparr>detectedLanguage := l', effects := effects (report_language fc st) @ es'\<rparr>"
    "playback_schedule es' = []" "sent_chunks es' = []"
    using Cons.IH by blast
  have "foldl (\<lambda>s fc. report_language fc s) st (fc # fcs)
      = st\<lparr>detectedLanguage := l', effects := effects st @ (es @ es')\<rparr>"
    by (simp add: 2(1)) (simp add: 1(1))
  moreover have "playback_schedule (es @ es') = []" "sent_chunks (es @ es') = []"
    by (simp_all add: playback_schedule_append sent_chunks_append 1 2)
  ultimately show ?case by blast
qed

lemma onmessage_toolCall_shape:
  "\<exists>l es. onmessage_toolCall message st = st\<lparr>detectedLanguage := l, effects := effects st @ es\<rparr>
      \<and> playback_schedule es = [] \<and> sent_chunks es = []"
proof (cases "toolCall message")
  case None
  then have "onmessage_toolCall message st = st\<lparr>detectedLanguage := detectedLanguage st, effects := effects st @ []\<rparr>"
    by (simp add: onmessage_toolCall_def)
  then show ?thesis by (metis playback_schedule.simps(1) sent_chunks.simps(1))
next
  case (Some tc)
  then show ?thesis using toolCalls_shape [of st "functionCalls tc"]
    by (simp add: onmessage_toolCall_def)
qed


lemma onmessage_transcriptions_eq:
  "onmessage_transcriptions message st =
     st\<lparr>currentInputTransRef :=
          currentInputTransRef st @ (case inputTxt message of None \<Rightarrow> [] | Some s \<Rightarrow> s),
        currentOutputTransRef :=
          currentOutputTransRef st @ (case outputTxt message of None \<Rightarrow> [] | Some s \<Rightarrow> s)\<rparr>"
  by (simp add: onmessage_transcriptions_def truthy_def Let_def split: option.splits)

lemma schedule_playback_frame:
  "messages (schedule_playback env b st) = messages st"
  "connectionState (schedule_playback env b st) = connectionState st"
  "currentInputTransRef (schedule_playback env b st) = currentInputTransRef st"
  "currentOutputTransRef (schedule_playback env b st) = currentOutputTransRef st"
  by (simp_all add: schedule_playback_def Let_def split: option.splits)

lemma onmessage_audio_frame:
  "messages (onmessage_audio D env m st) = messages st"
  "connectionState (onmessage_audio D env m st) = connectionState st"
  "currentInputTransRef (onmessage_audio D env m st) = currentInputTransRef st"
  "currentOutputTransRef (onmessage_audio D env m st) = currentOutputTransRef st"
  by (simp_all add: onmessage_audio_def schedule_playback_frame split: option.splits)

lemma onmessage_turnComplete_frame:
  "connectionState (onmessage_turnComplete env m st) = connectionState st"
  "nextStartTimeRef (onmessage_turnComplete env m st) = nextStartTimeRef st"
  "outputContextRef (onmessage_turnComplete env m st) = outputContextRef st"
  "outputAnalyserRef (onmessage_turnComplete env m st) = outputAnalyserRef st"
  "created (onmessage_turnComplete env m st) = created st"
  "effects (onmessage_turnComplete env m st) = effects st"
  by (simp_all add: onmessage_turnComplete_def Let_def)

lemma onmessage_connectionState:
  "connectionState (onmessage D env m st) = connectionState st"
proof -
  obtain l es where "onmessage_toolCall m st = st\<lparr>detectedLanguage := l, effects := effects st @ es\<rparr>"
    using onmessage_toolCall_shape by blast
  then show ?thesis
    by (simp add: onmessage_def onmessage_audio_frame onmessage_turnComplete_frame
        onmessage_transcriptions_eq)
qed

lemma onmessage_currentInputTransRef:
  "currentInputTransRef (onmessage D env m st) =
     (if isTurnComplete m then []
      else currentInputTransRef st @ (case inputTxt m of None \<Rightarrow> [] | Some s \<Rightarrow> s))"
proof -
  obtain l es where "onmessage_toolCall m st = st\<lparr>detectedLanguage := l, effects := effects st @ es\<rparr>"
    using onmessage_toolCall_shape by blast
  then show ?thesis
    by (simp add: onmessage_def onmessage_audio_frame onmessage_turnComplete_def Let_def
        onmessage_transcriptions_eq)
qed

lemma onmessage_currentOutputTransRef:
  "currentOutputTransRef (onmessage D env m st) =
     (if isTurnComplete m then []
      else currentOutputTransRef st @ (case outputTxt m of None \<Rightarrow> [] | Some s \<Rightarrow> s))"
proof -
  obtain l es where "onmessage_toolCall m st = st\<lparr>detectedLanguage := l, effects := effects st @ es\<rparr>"
    using onmessage_toolCall_shape by blast
  then show ?thesis
    by (simp add: onmessage_def onmessage_audio_frame onmessage_turnComplete_def Let_def
        onmessage_transcriptions_eq)
qed

lemma onmessage_messages:
  "messages (onmessage D env m st) =
     messages st @
       (let userText = trim (currentInputTransRef st @ (case inputTxt m of None \<Rightarrow> [] | Some s \<Rightarrow> s));
            modelText = trim (currentOutputTransRef st @ (case outputTxt m of None \<Rightarrow> [] | Some s \<Rightarrow> s))
        in if isTurnComplete m \<and> (userText \<noteq> [] \<or> modelText \<noteq> [])
           then [\<lparr>msg_id = toString (dateNow env 0), msg_text = userText,
                  sender = Sender_user, timestamp = dateNow env 1,
                  language = None, isTranslating = None\<rparr>,
                 \<lparr>msg_id = toString (dateNow env 2 + 1), msg_text = modelText,
                  sender = Sender_model, timestamp = dateNow env 3,
                  language = None, isTranslating = None\<rparr>]
           else [])"
proof -
  obtain l es where "onmessage_toolCall m st = st\<lparr>detectedLanguage := l, effects := effects st @ es\<rparr>"
    using onmessage_toolCall_shape by blast
  then show ?thesis
    by (simp add: onmessage_def onmessage_audio_frame onmessage_turnComplete_def Let_def
        onmessage_transcriptions_eq)
qed


lemma run_snoc: "run D (es @ [e]) st = next_state D e (run D es st)"
  by (simp add: run_def)

lemma run_Nil: "run D [] st = st"
  by (simp add: run_def)

lemma run_Cons: "run D (e # es) st = run D es (next_state D e st)"
  by (simp add: run_def)

lemma next_state_messages:
  "messages (next_state D e st) = messages st \<or>
   (\<exists>u m. sender u = Sender_user \<and> sender m = Sender_model \<and>
      messages (next_state D e st) = messages st @ [u, m])"
proof (cases e)
  case (OnMessage env message)
  then show ?thesis by (simp add: onmessage_messages Let_def)
qed (simp_all add: connect_frame connect_resume_frame disconnect_frame disconnect_resume_frame
      onopen_frame onclose_frame onerror_frame onaudioprocess_frame source_onended_frame)

lemma pairs_append:
  assumes "even (length ms)"
    and "\<forall>i<length ms. sender (ms ! i) = (if even i then Sender_user else Sender_model)"
    and "sender u = Sender_user" and "sender m = Sender_model"
  shows "even (length (ms @ [u, m])) \<and>
    (\<forall>i<length (ms @ [u, m]). sender ((ms @ [u, m]) ! i) = (if even i then Sender_user else Sender_model))"
proof
  show "even (length (ms @ [u, m]))" using assms(1) by simp
  show "\<forall>i<length (ms @ [u, m]). sender ((ms @ [u, m]) ! i) = (if even i then Sender_user else Sender_model)"
  proof (intro allI impI)
    fix i assume i: "i < length (ms @ [u, m])"
    consider "i < length ms" | "i = length ms" | "i = Suc (length ms)"
      using i by force
    then show "sender ((ms @ [u, m]) ! i) = (if even i then Sender_user else Sender_model)"
    proof cases
      case 1
      then show ?thesis using assms(2) by (simp add: nth_append)
    next
      case 2
      then show ?thesis using assms(1,3) by (simp add: nth_append)
    next
      case 3
      then show ?thesis using assms(1,4) by (simp add: nth_append)
    qed
  qed
qed

lemma next_state_transcripts:
  "\<not> turn_boundary e \<Longrightarrow>
     currentInputTransRef (next_state D e st) = currentInputTransRef st @ input_fragment e \<and>
     currentOutputTransRef (next_state D e st) = currentOutputTransRef st @ output_fragment e"
  by (cases e)
    (simp_all add: connect_frame connect_resume_frame disconnect_frame disconnect_resume_frame
      onopen_frame onclose_frame onerror_frame onaudioprocess_frame source_onended_frame
      onmessage_currentInputTransRef onmessage_currentOutputTransRef)

lemma run_transcripts:
  "\<forall>e\<in>set es. \<not> turn_boundary e \<Longrightarrow>
     currentInputTransRef (run D es st) = currentInputTransRef st @ concat (map input_fragment es) \<and>
     currentOutputTransRef (run D es st) = currentOutputTransRef st @ concat (map output_fragment es)"
proof (induction es rule: rev_induct)
  case Nil
  then show ?case by (simp add: run_Nil)
next
  case (snoc e es)
  then have "\<not> turn_boundary e" and "\<forall>e\<in>set es. \<not> turn_boundary e" by simp_all
  with snoc.IH next_state_transcripts [of e D "run D es st"]
  show ?case by (simp add: run_snoc)
qed

lemmas eval_defs =
  run_def session_up_def useLiveTranslator_def
  connect_def connect_resume_def connect_catch_def onopen_def onclose_def onerror_def
  disconnect_def disconnect_resume_def disconnect_cleanup_def
  onmessage_def onmessage_toolCall_def onmessage_transcriptions_def onmessage_turnComplete_def
  onmessage_audio_def schedule_playback_def onaudioprocess_def source_onended_def
  inputTxt_def outputTxt_def isTurnComplete_def base64Audio_def truthy_def
  trim_def isWhiteSpace_def set_add_def set_delete_def
  Let_def emit_def emitted_def
  example_deps_def example_env_def example_stream_def
  fragment_message_def turn_message_def audio_message_def mic_event_def

subsection \<open>Facts about the playback schedule\<close>

lemma schedule_playback_result:
  "\<exists>es. effects (schedule_playback env ab st) = effects st @ es \<and>
     sent_chunks es = [] \<and>
     playback_schedule es =
       [(\<lparr>node_id = created st, buffer = ab\<rparr>,
         if num_less (nextStartTimeRef st) (currentTime env)
         then num_add (currentTime env) tiny_buffer
         else nextStartTimeRef st)] \<and>
     nextStartTimeRef (schedule_playback env ab st) =
       num_add
         (if num_less (nextStartTimeRef st) (currentTime env)
          then num_add (currentTime env) tiny_buffer
          else nextStartTimeRef st)
         (duration ab)"
  by (cases "outputAnalyserRef st")
     (simp_all add: schedule_playback_def Let_def emit_def)

lemma onmessage_before_audio:
  "\<exists>s es. onmessage D env m st = onmessage_audio D env m s \<and>
     effects s = effects st @ es \<and> playback_schedule es = [] \<and> sent_chunks es = [] \<and>
     nextStartTimeRef s = nextStartTimeRef st \<and> outputContextRef s = outputContextRef st \<and>
     created s = created st"
proof -
  obtain l es where tc: "onmessage_toolCall m st = st\<lparr>detectedLanguage := l, effects := effects st @ es\<rparr>"
    "playback_schedule es = []" "sent_chunks es = []"
    using onmessage_toolCall_shape by blast
  let ?s = "onmessage_turnComplete env m (onmessage_transcriptions m (onmessage_toolCall m st))"
  have "onmessage D env m st = onmessage_audio D env m ?s"
    by (simp add: onmessage_def)
  moreover have "effects ?s = effects st @ es" "nextStartTimeRef ?s = nextStartTimeRef st"
    "outputContextRef ?s = outputContextRef st" "created ?s = created st"
    by (simp_all add: onmessage_turnComplete_frame onmessage_transcriptions_eq tc(1))
  ultimately show ?thesis using tc(2,3) by blast
qed

lemma onmessage_audio_scheduled:
  assumes "base64Audio m = Some b" "b \<noteq> []" "outputContextRef st = Some ctx"
    "base64ToUint8Array D b = Some bytes"
    "decodeAudioData D bytes ctx (AUDIO_OUTPUT_SAMPLE_RATE D) = Some ab"
  shows "onmessage_audio D env m st = schedule_playback env ab st"
  using assms by (simp add: onmessage_audio_def truthy_def)


lemma onmessage_audio_dropped:
  "outputContextRef st = None \<Longrightarrow> onmessage_audio D env m st = st"
  by (simp add: onmessage_audio_def)

lemma session_up_state:
  "run example_deps session_up useLiveTranslator =
     \<lparr>connectionState = CONNECTED, detectedLanguage = ''Waiting for speech...'',
      messages = [], inputContextRef = Some \<lparr>sampleRate = 16000\<rparr>,
      outputContextRef = Some \<lparr>sampleRate = 24000\<rparr>,
      inputAnalyserRef = Some \<lparr>fftSize = 256\<rparr>,
      outputAnalyserRef = Some \<lparr>fftSize = 256\<rparr>,
      processorRef = Some \<lparr>bufferSize = 4096, numberOfInputChannels = 1,
                            numberOfOutputChannels = 1, onaudioprocess_set = True\<rparr>,
      sourceRef = Some \<lparr>mediaStream = \<lparr>tracks = [''mic'']\<rparr>\<rparr>,
      streamRef = Some \<lparr>tracks = [''mic'']\<rparr>,
      sessionPromiseRef = Some \<lparr>session_model = ''live-model'', session_targetLanguage = ''Spanish''\<rparr>,
      nextStartTimeRef = Finite 0, scheduledSourcesRef = [],
      currentInputTransRef = [], currentOutputTransRef = [], created = 0,
      effects =
        [GetUserMedia, NodeConnect MicSourceNode InputAnalyserNode,
         NodeConnect InputAnalyserNode ProcessorNode,
         NodeConnect ProcessorNode InputDestination,
         LiveConnect \<lparr>session_model = ''live-model'', session_targetLanguage = ''Spanish''\<rparr>]\<rparr>"
  by (simp add: eval_defs)

lemma torn_down_under_session_state:
  "run example_deps torn_down_under_session useLiveTranslator =
     \<lparr>connectionState = CONNECTED, detectedLanguage = ''Waiting for speech...'',
      messages = [], inputContextRef = None, outputContextRef = None,
      inputAnalyserRef = Some \<lparr>fftSize = 256\<rparr>,
      outputAnalyserRef = Some \<lparr>fftSize = 256\<rparr>, processorRef = None,
      sourceRef = None, streamRef = None, sessionPromiseRef = None,
      nextStartTimeRef = Finite 0, scheduledSourcesRef = [],
      currentInputTransRef = [], currentOutputTransRef = [], created = 0,
      effects =
        [GetUserMedia, NodeConnect MicSourceNode InputAnalyserNode,
         NodeConnect InputAnalyserNode ProcessorNode,
         NodeConnect ProcessorNode InputDestination,
         LiveConnect \<lparr>session_model = ''live-model'', session_targetLanguage = ''Spanish''\<rparr>,
         GetUserMedia, NodeConnect MicSourceNode InputAnalyserNode,
         NodeConnect InputAnalyserNode ProcessorNode,
         NodeConnect ProcessorNode InputDestination,
         LiveConnect \<lparr>session_model = ''live-model'', session_targetLanguage = ''Spanish''\<rparr>,
         SessionClose, TrackStop ''mic'', NodeDisconnect ProcessorNode,
         NodeDisconnect MicSourceNode, ContextClose \<lparr>sampleRate = 16000\<rparr>,
         ContextClose \<lparr>sampleRate = 24000\<rparr>]\<rparr>"
  by (simp add: torn_down_under_session_def eval_defs)








subsection \<open>Facts about the connection state\<close>

lemma next_state_connectionState:
  "(case e of
      Connect apiKey thr \<Rightarrow>
        connectionState (next_state D e st) =
          (if apiKey = [] then connectionState st else if thr = None then CONNECTING else ERROR)
    | ConnectResume lang r \<Rightarrow>
        connectionState (next_state D e st) = connectionState st \<or>
        connectionState (next_state D e st) = ERROR \<and>
          sessionPromiseRef (next_state D e st) = sessionPromiseRef st
    | Disconnect \<Rightarrow> connectionState (next_state D e st) = DISCONNECTED
    | DisconnectResume r \<Rightarrow> connectionState (next_state D e st) = connectionState st
    | OnOpen t \<Rightarrow> connectionState (next_state D e st) = CONNECTED
    | OnMessage env m \<Rightarrow> connectionState (next_state D e st) = connectionState st
    | OnClose \<Rightarrow> connectionState (next_state D e st) = DISCONNECTED
    | OnError \<Rightarrow> connectionState (next_state D e st) = DISCONNECTED
    | OnAudioProcess ev \<Rightarrow> connectionState (next_state D e st) = connectionState st
    | OnEnded s \<Rightarrow> connectionState (next_state D e st) = connectionState st
    | AnimationFrame w r \<Rightarrow> connectionState (next_state D e st) = connectionState st)"
proof (cases e)
  case (Connect k thr)
  then show ?thesis by (simp add: connect_connectionState)
next
  case (ConnectResume lang r)
  then show ?thesis using connect_resume_connectionState [of D lang r st] by simp
qed (simp_all add: disconnect_frame disconnect_resume_frame onopen_frame onmessage_connectionState
      onclose_frame onerror_frame onaudioprocess_frame source_onended_frame)

subsection \<open>Facts about releasing resources\<close>

lemma list_all_teardown_TrackStop [simp]: "list_all is_teardown_effect (map TrackStop xs)"
  by (induction xs) simp_all

lemma list_all_teardown_SourceStop [simp]:
  "list_all is_teardown_effect (map (\<lambda>s. SourceStop (f s)) xs)"
  by (induction xs) simp_all

lemma disconnect_cleanup_teardown:
  "\<exists>es. effects (disconnect_cleanup st) = effects st @ es \<and> list_all is_teardown_effect es"
  by (simp add: disconnect_cleanup_def Let_def split: option.splits)

lemma disconnect_cleanup_calls:
  "effects (disconnect_cleanup st) = effects st @ teardown_calls st"
  by (simp add: disconnect_cleanup_def teardown_calls_def Let_def split: option.splits)

lemma teardown_calls_frame:
  "teardown_calls (st\<lparr>connectionState := c\<rparr>) = teardown_calls st"
  "teardown_calls (st\<lparr>effects := es\<rparr>) = teardown_calls st"
  "teardown_calls (st\<lparr>sessionPromiseRef := p\<rparr>) = teardown_calls st"
  by (simp_all add: teardown_calls_def)

lemma disconnect_resume_calls:
  "effects (disconnect_resume r st) = effects st @ session_calls r @ teardown_calls st"
  by (cases r)
     (simp_all add: disconnect_resume_def disconnect_cleanup_calls emit_def teardown_calls_frame)

lemma onerror_calls:
  "sessionPromiseRef st = None \<Longrightarrow>
     effects (onerror st) = effects st @ ConsoleError ''Session error:'' # teardown_calls st"
  by (simp add: onerror_def disconnect_def disconnect_cleanup_calls emit_def teardown_calls_frame)

lemma disconnect_cleanup_released:
  "sessionPromiseRef st = None \<Longrightarrow> resources_released (disconnect_cleanup st)"
  by (simp add: resources_released_def disconnect_cleanup_resources disconnect_cleanup_frame)

lemma disconnect_resume_released: "resources_released (disconnect_resume r st)"
  by (simp add: disconnect_resume_def Let_def disconnect_cleanup_released)

lemma disconnect_resume_teardown:
  "\<exists>es. effects (disconnect_resume r st) = effects st @ es \<and> list_all is_teardown_effect es"
proof -
  obtain pre where pre: "pre = (case r of SessionResolved \<Rightarrow> [SessionClose]
       | SessionResolvedCloseThrows \<Rightarrow> [SessionClose, ConsoleError ''Error closing session'']
       | SessionRejected \<Rightarrow> [ConsoleError ''Error closing session''])" by simp
  have p: "list_all is_teardown_effect pre"
    by (cases r) (simp_all add: pre)
  have e: "disconnect_resume r st = disconnect_cleanup ((emit pre st)\<lparr>sessionPromiseRef := None\<rparr>)"
    by (cases r) (simp_all add: disconnect_resume_def pre)
  obtain es where es: "effects (disconnect_cleanup ((emit pre st)\<lparr>sessionPromiseRef := None\<rparr>))
      = effects ((emit pre st)\<lparr>sessionPromiseRef := None\<rparr>) @ es"
      "list_all is_teardown_effect es"
    using disconnect_cleanup_teardown by blast
  have "effects (disconnect_resume r st) = effects st @ (pre @ es)"
    using es(1) by (simp add: e)
  moreover have "list_all is_teardown_effect (pre @ es)"
    using p es(2) by simp
  ultimately show ?thesis by blast
qed

lemma disconnect_teardown:
  "\<exists>es. effects (disconnect st) = effects st @ es \<and> list_all is_teardown_effect es"
  using disconnect_cleanup_teardown [of "st\<lparr>connectionState := DISCONNECTED\<rparr>"]
  by (simp add: disconnect_def Let_def split: option.splits)

lemma onerror_teardown:
  "\<exists>es. effects (onerror st) = effects st @ es \<and> list_all is_teardown_effect es"
proof -
  let ?s = "(emit [ConsoleError ''Session error:''] st)\<lparr>connectionState := ERROR\<rparr>"
  obtain es where es: "effects (disconnect ?s) = effects ?s @ es" "list_all is_teardown_effect es"
    using disconnect_teardown by blast
  have "effects (onerror st) = effects st @ (ConsoleError ''Session error:'' # es)"
    using es(1) by (simp add: onerror_def)
  moreover have "list_all is_teardown_effect (ConsoleError ''Session error:'' # es)"
    using es(2) by simp
  ultimately show ?thesis by blast
qed

lemma onerror_sync:
  "sessionPromiseRef st = None \<Longrightarrow> resources_released (onerror st)"
  "sessionPromiseRef st \<noteq> None \<Longrightarrow>
     onerror st = st\<lparr>connectionState := DISCONNECTED,
                      effects := effects st @ [ConsoleError ''Session error:'']\<rparr>"
  by (auto simp add: onerror_def disconnect_def Let_def emit_def disconnect_cleanup_released)

lemma playing_state:
  "run example_deps (session_up @ [OnMessage (example_env 2) audio_message]) useLiveTranslator =
     \<lparr>connectionState = CONNECTED, detectedLanguage = ''Waiting for speech...'',
      messages = [], inputContextRef = Some \<lparr>sampleRate = 16000\<rparr>,
      outputContextRef = Some \<lparr>sampleRate = 24000\<rparr>,
      inputAnalyserRef = Some \<lparr>fftSize = 256\<rparr>,
      outputAnalyserRef = Some \<lparr>fftSize = 256\<rparr>,
      processorRef = Some \<lparr>bufferSize = 4096, numberOfInputChannels = 1,
                            numberOfOutputChannels = 1, onaudioprocess_set = True\<rparr>,
      sourceRef = Some \<lparr>mediaStream = \<lparr>tracks = [''mic'']\<rparr>\<rparr>,
      streamRef = Some \<lparr>tracks = [''mic'']\<rparr>,
      sessionPromiseRef = Some \<lparr>session_model = ''live-model'', session_targetLanguage = ''Spanish''\<rparr>,
      nextStartTimeRef = Finite (3433994715870003 / 1125899906842624),
      scheduledSourcesRef = [\<lparr>node_id = 0, buffer = \<lparr>duration = Finite 1\<rparr>\<rparr>],
      currentInputTransRef = [], currentOutputTransRef = [], created = 1,
      effects =
        [GetUserMedia, NodeConnect MicSourceNode InputAnalyserNode,
         NodeConnect InputAnalyserNode ProcessorNode,
         NodeConnect ProcessorNode InputDestination,
         LiveConnect \<lparr>session_model = ''live-model'', session_targetLanguage = ''Spanish''\<rparr>,
         NodeConnect (BufferSource 0) OutputAnalyserNode,
         NodeConnect OutputAnalyserNode OutputDestination,
         SourceStart \<lparr>node_id = 0, buffer = \<lparr>duration = Finite 1\<rparr>\<rparr> (Finite (2308094809027379 / 1125899906842624))]\<rparr>"
  by (simp add: eval_defs num_less_def add_eval)

subsection \<open>Facts about microphone chunks\<close>

lemma delivered_mono_4096:
  assumes "bufferSize p = 4096" "numberOfInputChannels p = 1" "delivered_by p e"
  shows "\<exists>inputData. inputBuffer e = [inputData] \<and> length inputData = 4096"
proof -
  from assms have len: "length (inputBuffer e) = 1"
    and all: "list_all (\<lambda>c. length c = 4096) (inputBuffer e)"
    by (simp_all add: delivered_by_def)
  from len obtain c where c: "inputBuffer e = [c]"
    by (cases "inputBuffer e") simp_all
  with all show ?thesis by simp
qed

lemma onaudioprocess_mono:
  "inputBuffer e = [inputData] \<Longrightarrow>
     onaudioprocess D e st =
       (case sessionPromiseRef st of
          None \<Rightarrow> st
        | Some _ \<Rightarrow> emit [SendRealtimeInput (createPcmBlob D inputData (AUDIO_INPUT_SAMPLE_RATE D))] st)"
  by (simp add: onaudioprocess_def Let_def)

lemma session_down_state:
  "run example_deps (session_up @ [Disconnect, DisconnectResume SessionResolved]) useLiveTranslator =
     \<lparr>connectionState = DISCONNECTED, detectedLanguage = ''Waiting for speech...'',
      messages = [], inputContextRef = None, outputContextRef = None,
      inputAnalyserRef = Some \<lparr>fftSize = 256\<rparr>,
      outputAnalyserRef = Some \<lparr>fftSize = 256\<rparr>, processorRef = None,
      sourceRef = None, streamRef = None, sessionPromiseRef = None,
      nextStartTimeRef = Finite 0, scheduledSourcesRef = [],
      currentInputTransRef = [], currentOutputTransRef = [], created = 0,
      effects =
        [GetUserMedia, NodeConnect MicSourceNode InputAnalyserNode,
         NodeConnect InputAnalyserNode ProcessorNode,
         NodeConnect ProcessorNode InputDestination,
         LiveConnect \<lparr>session_model = ''live-model'', session_targetLanguage = ''Spanish''\<rparr>,
         SessionClose, TrackStop ''mic'', NodeDisconnect ProcessorNode,
         NodeDisconnect MicSourceNode, ContextClose \<lparr>sampleRate = 16000\<rparr>,
         ContextClose \<lparr>sampleRate = 24000\<rparr>]\<rparr>"
  by (simp add: eval_defs)

subsection \<open>Facts about the page\<close>

lemma hook_page_step: "hook (page_step D e pg) = next_state D e (hook pg)"
  by (cases e) (simp_all add: animation_frame_def split: Which.splits option.splits)

lemma hook_page_run: "hook (page_run D es pg) = run D es (hook pg)"
  by (induction es rule: rev_induct) (simp_all add: page_run_def run_def hook_page_step)

lemma next_state_erase: "next_state D (erase_readings e) st = next_state D e st"
  by (cases e) simp_all

lemma run_erase: "run D (map erase_readings es) st = run D es st"
  by (induction es arbitrary: st) (simp_all add: run_Nil run_Cons next_state_erase)

section \<open>The claims\<close>

text \<open>
  C1 (as amended). Playback scheduling is audio-clock arithmetic on doubles. A message whose
  first part carries non-empty inline audio, received while the output context exists and
  decoded to a buffer, has that buffer scheduled to start at the tracked next-start-time,
  after that time has been set to the double sum of the current time and \<^verbatim>\<open>0.05\<close> when it
  lay behind the current time; the next-start-time then becomes the double sum of the start
  time and the buffer's duration, which is the double nearest to their exact sum and need
  not be that sum. A message received while there is no output context schedules nothing and
  leaves the next-start-time alone.
\<close>

theorem playback_scheduling:
  "(base64Audio m = Some b \<and> b \<noteq> [] \<and> outputContextRef st = Some ctx \<and>
    base64ToUint8Array D b = Some bytes \<and>
    decodeAudioData D bytes ctx (AUDIO_OUTPUT_SAMPLE_RATE D) = Some ab \<longrightarrow>
      playback_schedule (emitted st (onmessage D env m st)) =
        [(\<lparr>node_id = created st, buffer = ab\<rparr>,
          if num_less (nextStartTimeRef st) (currentTime env)
          then num_add (currentTime env) tiny_buffer
          else nextStartTimeRef st)] \<and>
      nextStartTimeRef (onmessage D env m st) =
        num_add
          (if num_less (nextStartTimeRef st) (currentTime env)
           then num_add (currentTime env) tiny_buffer
           else nextStartTimeRef st)
          (duration ab))
   \<and> (outputContextRef st = None \<longrightarrow>
      playback_schedule (emitted st (onmessage D env m st)) = [] \<and>
      nextStartTimeRef (onmessage D env m st) = nextStartTimeRef st)"
proof -
  obtain s es where s: "onmessage D env m st = onmessage_audio D env m s"
    "effects s = effects st @ es" "playback_schedule es = []"
    "nextStartTimeRef s = nextStartTimeRef st" "outputContextRef s = outputContextRef st"
    "created s = created st"
    using onmessage_before_audio by blast
  have dropped: "playback_schedule (emitted st (onmessage D env m st)) = [] \<and>
      nextStartTimeRef (onmessage D env m st) = nextStartTimeRef st"
    if "outputContextRef st = None"
  proof -
    have "onmessage D env m st = s"
      using that s(1,5) by (simp add: onmessage_audio_dropped)
    then show ?thesis using s(2,3,4) by simp
  qed
  have scheduled: "playback_schedule (emitted st (onmessage D env m st)) =
        [(\<lparr>node_id = created st, buffer = ab\<rparr>,
          if num_less (nextStartTimeRef st) (currentTime env)
          then num_add (currentTime env) tiny_buffer
          else nextStartTimeRef st)] \<and>
      nextStartTimeRef (onmessage D env m st) =
        num_add
          (if num_less (nextStartTimeRef st) (currentTime env)
           then num_add (currentTime env) tiny_buffer
           else nextStartTimeRef st)
          (duration ab)"
    if h: "base64Audio m = Some b" "b \<noteq> []" "outputContextRef st = Some ctx"
      "base64ToUint8Array D b = Some bytes"
      "decodeAudioData D bytes ctx (AUDIO_OUTPUT_SAMPLE_RATE D) = Some ab"
  proof -
    have eq: "onmessage D env m st = schedule_playback env ab s"
      using s(1) onmessage_audio_scheduled [of m b s ctx D bytes ab env] h s(5) by simp
    obtain es' where es': "effects (schedule_playback env ab s) = effects s @ es'"
      "playback_schedule es' =
       [(\<lparr>node_id = created s, buffer = ab\<rparr>,
         if num_less (nextStartTimeRef s) (currentTime env)
         then num_add (currentTime env) tiny_buffer
         else nextStartTimeRef s)]"
      "nextStartTimeRef (schedule_playback env ab s) =
       num_add
         (if num_less (nextStartTimeRef s) (currentTime env)
          then num_add (currentTime env) tiny_buffer
          else nextStartTimeRef s)
         (duration ab)"
      using schedule_playback_result [of env ab s] by blast
    have "effects (onmessage D env m st) = effects st @ (es @ es')"
      by (simp add: eq es'(1) s(2))
    then have "emitted st (onmessage D env m st) = es @ es'"
      by (rule emitted_append)
    then show ?thesis
      by (simp add: playback_schedule_append s(3) es'(2) eq es'(3) s(4) s(6))
  qed
  show ?thesis using dropped scheduled by blast
qed

theorem playback_scheduling_witness:
  "playback_schedule
     (emitted (run example_deps session_up useLiveTranslator)
        (onmessage example_deps (example_env 2) audio_message
           (run example_deps session_up useLiveTranslator)))
     = [(\<lparr>node_id = 0, buffer = \<lparr>duration = Finite 1\<rparr>\<rparr>,
         Finite (2308094809027379 / 1125899906842624))]
   \<and> nextStartTimeRef
        (onmessage example_deps (example_env 2) audio_message
           (run example_deps session_up useLiveTranslator))
       = Finite (3433994715870003 / 1125899906842624)
   \<and> playback_schedule
     (emitted (run example_deps torn_down_under_session useLiveTranslator)
        (onmessage example_deps (example_env 2) audio_message
           (run example_deps torn_down_under_session useLiveTranslator))) = []"
proof -
  let ?up = "run example_deps session_up useLiveTranslator"
  let ?down = "run example_deps torn_down_under_session useLiveTranslator"
  have h: "base64Audio audio_message = Some ''AAAA'' \<and> ''AAAA'' \<noteq> [] \<and>
      outputContextRef ?up = Some \<lparr>sampleRate = 24000\<rparr> \<and>
      base64ToUint8Array example_deps ''AAAA'' = Some [0, 0, 0, 0] \<and>
      decodeAudioData example_deps [0, 0, 0, 0] \<lparr>sampleRate = 24000\<rparr>
        (AUDIO_OUTPUT_SAMPLE_RATE example_deps) = Some \<lparr>duration = Finite 1\<rparr>"
    by (simp add: session_up_state) (simp add: base64Audio_def audio_message_def example_deps_def)
  have v: "created ?up = 0" "nextStartTimeRef ?up = Finite 0"
    "currentTime (example_env 2) = Finite 2"
    by (simp_all add: session_up_state example_env_def)
  have d: "outputContextRef ?down = None"
    by (simp add: torn_down_under_session_state)
  from playback_scheduling [of audio_message "''AAAA''" ?up "\<lparr>sampleRate = 24000\<rparr>" example_deps
      "[0, 0, 0, 0]" "\<lparr>duration = Finite 1\<rparr>" "example_env 2"] h
  have 1: "playback_schedule (emitted ?up (onmessage example_deps (example_env 2) audio_message ?up))
      = [(\<lparr>node_id = 0, buffer = \<lparr>duration = Finite 1\<rparr>\<rparr>,
          Finite (2308094809027379 / 1125899906842624))]"
    "nextStartTimeRef (onmessage example_deps (example_env 2) audio_message ?up)
      = Finite (3433994715870003 / 1125899906842624)"
    by (simp_all add: v num_less_def add_eval)
  from playback_scheduling [of audio_message "''AAAA''" ?down "\<lparr>sampleRate = 24000\<rparr>" example_deps
      "[0, 0, 0, 0]" "\<lparr>duration = Finite 1\<rparr>" "example_env 2"] d
  have 2: "playback_schedule (emitted ?down (onmessage example_deps (example_env 2) audio_message ?down)) = []"
    by blast
  show ?thesis using 1 2 by blast
qed

text \<open>Against the claim as it was stated. An audio message that arrives after the tear-down,
  or in a session whose contexts a pending tear-down took away, is not scheduled. With the
  clock at the double \<^verbatim>\<open>0.1\<close> and a buffer of one second, the start time is
  \<^verbatim>\<open>0.15000000000000002\<close>, which is neither the clock reading plus one twentieth nor its sum
  with the double \<^verbatim>\<open>0.05\<close>, and the next start time is \<^verbatim>\<open>1.15\<close>, not the start time plus
  one.\<close>

theorem playback_scheduling_counterexample:
  "truthy (base64Audio audio_message)
   \<and> playback_schedule
        (emitted
           (run example_deps (session_up @ [Disconnect, DisconnectResume SessionResolved]) useLiveTranslator)
           (onmessage example_deps (example_env 2) audio_message
              (run example_deps (session_up @ [Disconnect, DisconnectResume SessionResolved])
                 useLiveTranslator))) = []
   \<and> nextStartTimeRef
        (onmessage example_deps (example_env 2) audio_message
           (run example_deps (session_up @ [Disconnect, DisconnectResume SessionResolved])
              useLiveTranslator))
       = nextStartTimeRef
           (run example_deps (session_up @ [Disconnect, DisconnectResume SessionResolved])
              useLiveTranslator)
   \<and> connectionState (run example_deps torn_down_under_session useLiveTranslator) = CONNECTED
   \<and> playback_schedule
        (effects (onmessage example_deps (example_env 2) audio_message
           (run example_deps torn_down_under_session useLiveTranslator))) = []
   \<and> nextStartTimeRef
        (onmessage example_deps (example_env 2) audio_message
           (run example_deps torn_down_under_session useLiveTranslator)) = Finite 0
   \<and> playback_schedule
        (emitted (run example_deps session_up useLiveTranslator)
           (onmessage example_deps (example_env (3602879701896397 / 36028797018963968)) audio_message
              (run example_deps session_up useLiveTranslator)))
       = [(\<lparr>node_id = 0, buffer = \<lparr>duration = Finite 1\<rparr>\<rparr>,
           Finite (1351079888211149 / 9007199254740992))]
   \<and> nextStartTimeRef
        (onmessage example_deps (example_env (3602879701896397 / 36028797018963968)) audio_message
           (run example_deps session_up useLiveTranslator))
       = Finite (2589569785738035 / 2251799813685248)
   \<and> (1351079888211149 / 9007199254740992 :: rat) \<noteq> 3602879701896397 / 36028797018963968 + 1 / 20
   \<and> (1351079888211149 / 9007199254740992 :: rat)
       \<noteq> 3602879701896397 / 36028797018963968 + 3602879701896397 / 72057594037927936
   \<and> (2589569785738035 / 2251799813685248 :: rat) \<noteq> 1351079888211149 / 9007199254740992 + 1"
  by (simp add: torn_down_under_session_state session_down_state session_up_state)
     (simp add: eval_defs num_less_def add_eval)




text \<open>
  C3 (as amended). The script processor is created with a buffer of 4096 samples, one input
  and one output channel, and \<^verbatim>\<open>onopen\<close> installs the handler on it. For every buffer such a
  processor delivers (one channel of exactly 4096 samples) the handler reads channel 0,
  turns it into a PCM blob with \<^verbatim>\<open>createPcmBlob\<close> at the input sample rate and, while a
  session promise is held, hands that blob to the session in exactly one
  \<^verbatim>\<open>sendRealtimeInput\<close> call (registered on the promise); nothing else of the state changes.
  While no session promise is held the buffer is dropped.
\<close>

theorem microphone_chunk_pipeline:
  "(inputContextRef st \<noteq> None \<and> inputAnalyserRef st \<noteq> None \<longrightarrow>
      processorRef (connect_resume D lang (StreamResolved stream) st) =
        Some \<lparr>bufferSize = 4096, numberOfInputChannels = 1,
              numberOfOutputChannels = 1, onaudioprocess_set = False\<rparr>)
   \<and> processorRef (onopen t st) =
        map_option (\<lambda>p. p\<lparr>onaudioprocess_set := True\<rparr>) (processorRef st)
   \<and> (bufferSize p = 4096 \<and> numberOfInputChannels p = 1 \<and> delivered_by p e \<longrightarrow>
        (\<exists>inputData. inputBuffer e = [inputData] \<and> length inputData = 4096 \<and>
           onaudioprocess D e st =
             (case sessionPromiseRef st of
                None \<Rightarrow> st
              | Some _ \<Rightarrow>
                  emit [SendRealtimeInput (createPcmBlob D inputData (AUDIO_INPUT_SAMPLE_RATE D))] st)))"
proof -
  have 1: "processorRef (connect_resume D lang (StreamResolved stream) st) =
        Some \<lparr>bufferSize = 4096, numberOfInputChannels = 1,
              numberOfOutputChannels = 1, onaudioprocess_set = False\<rparr>"
    if "inputContextRef st \<noteq> None \<and> inputAnalyserRef st \<noteq> None"
    using that by (auto simp add: connect_resume_def Let_def)
  have 2: "processorRef (onopen t st) =
        map_option (\<lambda>p. p\<lparr>onaudioprocess_set := True\<rparr>) (processorRef st)"
    by (simp add: onopen_def Let_def split: option.splits)
  have 3: "\<exists>inputData. inputBuffer e = [inputData] \<and> length inputData = 4096 \<and>
           onaudioprocess D e st =
             (case sessionPromiseRef st of
                None \<Rightarrow> st
              | Some _ \<Rightarrow>
                  emit [SendRealtimeInput (createPcmBlob D inputData (AUDIO_INPUT_SAMPLE_RATE D))] st)"
    if h: "bufferSize p = 4096 \<and> numberOfInputChannels p = 1 \<and> delivered_by p e"
  proof -
    obtain c where c: "inputBuffer e = [c]" "length c = 4096"
      using delivered_mono_4096 [of p e] h by blast
    then show ?thesis using onaudioprocess_mono [of e c D st] by blast
  qed
  show ?thesis using 1 2 3 by blast
qed

theorem microphone_chunk_pipeline_witness:
  "inputContextRef (run example_deps [Connect ''key'' None] useLiveTranslator) \<noteq> None
   \<and> inputAnalyserRef (run example_deps [Connect ''key'' None] useLiveTranslator) \<noteq> None
   \<and> processorRef (run example_deps session_up useLiveTranslator) =
       Some \<lparr>bufferSize = 4096, numberOfInputChannels = 1,
             numberOfOutputChannels = 1, onaudioprocess_set = True\<rparr>
   \<and> delivered_by \<lparr>bufferSize = 4096, numberOfInputChannels = 1,
                    numberOfOutputChannels = 1, onaudioprocess_set = True\<rparr> mic_event
   \<and> emitted (run example_deps session_up useLiveTranslator)
        (onaudioprocess example_deps mic_event (run example_deps session_up useLiveTranslator))
       = [SendRealtimeInput (createPcmBlob example_deps (replicate 4096 0) 16000)]"
proof -
  let ?p = "\<lparr>bufferSize = 4096, numberOfInputChannels = 1,
             numberOfOutputChannels = 1, onaudioprocess_set = True\<rparr>"
  let ?start = "run example_deps [Connect ''key'' None] useLiveTranslator"
  let ?up = "run example_deps session_up useLiveTranslator"
  have c: "inputContextRef ?start \<noteq> None \<and> inputAnalyserRef ?start \<noteq> None"
    by (simp add: eval_defs)
  have up: "processorRef ?up = Some ?p"
    by (simp add: session_up_state)
  have d: "bufferSize ?p = 4096 \<and> numberOfInputChannels ?p = 1 \<and> delivered_by ?p mic_event"
    by (simp add: delivered_by_def mic_event_def)
  have sp: "sessionPromiseRef ?up = Some \<lparr>session_model = ''live-model'', session_targetLanguage = ''Spanish''\<rparr>"
    by (simp add: session_up_state)
  from microphone_chunk_pipeline [of ?start example_deps "''Spanish''" example_stream "Finite 0" ?p mic_event] c
  have "processorRef (connect_resume example_deps ''Spanish'' (StreamResolved example_stream) ?start) =
        Some \<lparr>bufferSize = 4096, numberOfInputChannels = 1,
              numberOfOutputChannels = 1, onaudioprocess_set = False\<rparr>"
    by blast
  from microphone_chunk_pipeline [of ?up example_deps "''Spanish''" example_stream "Finite 0" ?p mic_event] d
  obtain inputData where i: "inputBuffer mic_event = [inputData]"
    "onaudioprocess example_deps mic_event ?up =
       (case sessionPromiseRef ?up of
          None \<Rightarrow> ?up
        | Some _ \<Rightarrow> emit [SendRealtimeInput (createPcmBlob example_deps inputData
              (AUDIO_INPUT_SAMPLE_RATE example_deps))] ?up)"
    by blast
  have "inputData = replicate 4096 0"
    using i(1) by (simp add: mic_event_def)
  then have "emitted ?up (onaudioprocess example_deps mic_event ?up)
       = [SendRealtimeInput (createPcmBlob example_deps (replicate 4096 0) 16000)]"
    by (simp add: i(2) sp emitted_def) (simp add: example_deps_def)
  then show ?thesis using c up d by blast
qed

theorem microphone_chunk_pipeline_counterexample:
  "processorRef (run example_deps session_up useLiveTranslator) =
     Some \<lparr>bufferSize = 4096, numberOfInputChannels = 1,
           numberOfOutputChannels = 1, onaudioprocess_set = True\<rparr>
   \<and> delivered_by \<lparr>bufferSize = 4096, numberOfInputChannels = 1,
                    numberOfOutputChannels = 1, onaudioprocess_set = True\<rparr> mic_event
   \<and> sessionPromiseRef (run example_deps first_processor_left_running useLiveTranslator) = None
   \<and> sent_chunks (emitted
        (run example_deps first_processor_left_running useLiveTranslator)
        (onaudioprocess example_deps mic_event
          (run example_deps first_processor_left_running useLiveTranslator)))
      = []
   \<and> sent_chunks (emitted
        (run example_deps (session_up @ [Disconnect, DisconnectResume SessionResolved]) useLiveTranslator)
        (onaudioprocess example_deps mic_event
          (run example_deps (session_up @ [Disconnect, DisconnectResume SessionResolved]) useLiveTranslator)))
      = []"
proof -
  have "sessionPromiseRef (run example_deps first_processor_left_running useLiveTranslator) = None"
    by (simp add: first_processor_left_running_def eval_defs)
  then show ?thesis
    by (simp add: session_up_state session_down_state)
       (simp add: delivered_by_def mic_event_def onaudioprocess_def emitted_def Let_def)
qed

text \<open>
  C4. Transcript assembly. A message that does not complete a turn appends its input and its
  output transcription fragment to the respective buffer; a message with \<^verbatim>\<open>turnComplete\<close>
  first appends its fragments, then, if one of the two trimmed buffers is non-empty, appends
  exactly two chat messages (a \<^verbatim>\<open>user\<close> message with the trimmed input transcript, then a
  \<^verbatim>\<open>model\<close> message with the trimmed output transcript), and empties both buffers in
  either case. Over any run without a turn boundary the buffers hold the fragments in
  arrival order. Trimming is that of \<^verbatim>\<open>String.prototype.trim\<close>: a turn whose transcripts
  hold nothing but white space, a no-break space for one, appends no message.
\<close>

theorem transcript_assembly:
  "currentInputTransRef (onmessage D env m st) =
     (if isTurnComplete m then []
      else currentInputTransRef st @ (case inputTxt m of None \<Rightarrow> [] | Some s \<Rightarrow> s))
   \<and> currentOutputTransRef (onmessage D env m st) =
     (if isTurnComplete m then []
      else currentOutputTransRef st @ (case outputTxt m of None \<Rightarrow> [] | Some s \<Rightarrow> s))
   \<and> messages (onmessage D env m st) =
     messages st @
       (let userText = trim (currentInputTransRef st @ (case inputTxt m of None \<Rightarrow> [] | Some s \<Rightarrow> s));
            modelText = trim (currentOutputTransRef st @ (case outputTxt m of None \<Rightarrow> [] | Some s \<Rightarrow> s))
        in if isTurnComplete m \<and> (userText \<noteq> [] \<or> modelText \<noteq> [])
           then [\<lparr>msg_id = toString (dateNow env 0), msg_text = userText,
                  sender = Sender_user, timestamp = dateNow env 1,
                  language = None, isTranslating = None\<rparr>,
                 \<lparr>msg_id = toString (dateNow env 2 + 1), msg_text = modelText,
                  sender = Sender_model, timestamp = dateNow env 3,
                  language = None, isTranslating = None\<rparr>]
           else [])
   \<and> ((\<forall>e\<in>set es. \<not> turn_boundary e) \<longrightarrow>
        currentInputTransRef (run D es st) = currentInputTransRef st @ concat (map input_fragment es) \<and>
        currentOutputTransRef (run D es st) = currentOutputTransRef st @ concat (map output_fragment es))"
  using run_transcripts [of es D st]
  by (simp only: onmessage_currentInputTransRef onmessage_currentOutputTransRef onmessage_messages)
     blast

text \<open>The fragments \<^verbatim>\<open>"hola "\<close> and \<^verbatim>\<open>"hello"\<close>, each received twice, give the messages
  \<^verbatim>\<open>"hola hola"\<close> and \<^verbatim>\<open>"hellohello"\<close>; a turn that holds a no-break space gives none.\<close>

theorem transcript_assembly_witness:
  "\<not> turn_boundary (OnMessage (example_env 2) fragment_message)
   \<and> \<not> turn_boundary (OnAudioProcess mic_event)
   \<and> \<not> turn_boundary (OnMessage (example_env 3) fragment_message)
   \<and> currentInputTransRef (run example_deps
        [OnMessage (example_env 2) fragment_message, OnAudioProcess mic_event,
         OnMessage (example_env 3) fragment_message]
        (run example_deps session_up useLiveTranslator))
       = [0x68, 0x6F, 0x6C, 0x61, 0x20, 0x68, 0x6F, 0x6C, 0x61, 0x20]
   \<and> map msg_text (messages (onmessage example_deps (example_env 4) turn_message
        (run example_deps
          [OnMessage (example_env 2) fragment_message, OnAudioProcess mic_event,
           OnMessage (example_env 3) fragment_message]
          (run example_deps session_up useLiveTranslator))))
       = [[0x68, 0x6F, 0x6C, 0x61, 0x20, 0x68, 0x6F, 0x6C, 0x61],
          [0x68, 0x65, 0x6C, 0x6C, 0x6F, 0x68, 0x65, 0x6C, 0x6C, 0x6F]]
   \<and> messages (onmessage example_deps (example_env 4) nbsp_message
        (run example_deps session_up useLiveTranslator)) = []
   \<and> currentInputTransRef (onmessage example_deps (example_env 4) nbsp_message
        (run example_deps session_up useLiveTranslator)) = []"
proof -
  let ?es = "[OnMessage (example_env 2) fragment_message, OnAudioProcess mic_event,
               OnMessage (example_env 3) fragment_message]"
  let ?st = "run example_deps session_up useLiveTranslator"
  have nb: "\<forall>e\<in>set ?es. \<not> turn_boundary e"
    by (simp add: isTurnComplete_def fragment_message_def)
  have st0: "currentInputTransRef ?st = []" "currentOutputTransRef ?st = []" "messages ?st = []"
    by (simp_all add: session_up_state)
  from transcript_assembly [of example_deps "example_env 4" turn_message ?st ?es] nb
  have acc: "currentInputTransRef (run example_deps ?es ?st) = currentInputTransRef ?st @ concat (map input_fragment ?es)"
       "currentOutputTransRef (run example_deps ?es ?st) = currentOutputTransRef ?st @ concat (map output_fragment ?es)"
    by blast+
  from transcript_assembly [of example_deps "example_env 4" turn_message "run example_deps ?es ?st" "[]"]
  have msgs: "messages (onmessage example_deps (example_env 4) turn_message (run example_deps ?es ?st)) =
     messages (run example_deps ?es ?st) @
       (let userText = trim (currentInputTransRef (run example_deps ?es ?st) @ (case inputTxt turn_message of None \<Rightarrow> [] | Some s \<Rightarrow> s));
            modelText = trim (currentOutputTransRef (run example_deps ?es ?st) @ (case outputTxt turn_message of None \<Rightarrow> [] | Some s \<Rightarrow> s))
        in if isTurnComplete turn_message \<and> (userText \<noteq> [] \<or> modelText \<noteq> [])
           then [\<lparr>msg_id = toString (dateNow (example_env 4) 0), msg_text = userText,
                  sender = Sender_user, timestamp = dateNow (example_env 4) 1,
                  language = None, isTranslating = None\<rparr>,
                 \<lparr>msg_id = toString (dateNow (example_env 4) 2 + 1), msg_text = modelText,
                  sender = Sender_model, timestamp = dateNow (example_env 4) 3,
                  language = None, isTranslating = None\<rparr>]
           else [])"
    by blast
  from transcript_assembly [of example_deps "example_env 4" nbsp_message ?st "[]"]
  have nbsp: "messages (onmessage example_deps (example_env 4) nbsp_message ?st) =
     messages ?st @
       (let userText = trim (currentInputTransRef ?st @ (case inputTxt nbsp_message of None \<Rightarrow> [] | Some s \<Rightarrow> s));
            modelText = trim (currentOutputTransRef ?st @ (case outputTxt nbsp_message of None \<Rightarrow> [] | Some s \<Rightarrow> s))
        in if isTurnComplete nbsp_message \<and> (userText \<noteq> [] \<or> modelText \<noteq> [])
           then [\<lparr>msg_id = toString (dateNow (example_env 4) 0), msg_text = userText,
                  sender = Sender_user, timestamp = dateNow (example_env 4) 1,
                  language = None, isTranslating = None\<rparr>,
                 \<lparr>msg_id = toString (dateNow (example_env 4) 2 + 1), msg_text = modelText,
                  sender = Sender_model, timestamp = dateNow (example_env 4) 3,
                  language = None, isTranslating = None\<rparr>]
           else [])"
    and nbsp_in: "currentInputTransRef (onmessage example_deps (example_env 4) nbsp_message ?st) =
     (if isTurnComplete nbsp_message then []
      else currentInputTransRef ?st @ (case inputTxt nbsp_message of None \<Rightarrow> [] | Some s \<Rightarrow> s))"
    by blast+
  have in1: "currentInputTransRef (run example_deps ?es ?st)
      = [0x68, 0x6F, 0x6C, 0x61, 0x20, 0x68, 0x6F, 0x6C, 0x61, 0x20]"
    using acc(1) st0 by (simp add: inputTxt_def fragment_message_def)
  have out1: "currentOutputTransRef (run example_deps ?es ?st)
      = [0x68, 0x65, 0x6C, 0x6C, 0x6F, 0x68, 0x65, 0x6C, 0x6C, 0x6F]"
    using acc(2) st0 by (simp add: outputTxt_def fragment_message_def)
  have m0: "messages (run example_deps ?es ?st) = []"
    by (simp add: session_up_state) (simp add: eval_defs)
  have 1: "map msg_text (messages (onmessage example_deps (example_env 4) turn_message
        (run example_deps ?es ?st)))
       = [[0x68, 0x6F, 0x6C, 0x61, 0x20, 0x68, 0x6F, 0x6C, 0x61],
          [0x68, 0x65, 0x6C, 0x6C, 0x6F, 0x68, 0x65, 0x6C, 0x6C, 0x6F]]"
    unfolding msgs
    by (simp add: in1 out1 m0 inputTxt_def outputTxt_def isTurnComplete_def turn_message_def
        trim_def isWhiteSpace_def Let_def)
  have 2: "messages (onmessage example_deps (example_env 4) nbsp_message ?st) = []"
    unfolding nbsp
    by (simp add: st0 inputTxt_def outputTxt_def isTurnComplete_def nbsp_message_def
        trim_def isWhiteSpace_def Let_def)
  have 3: "currentInputTransRef (onmessage example_deps (example_env 4) nbsp_message ?st) = []"
    unfolding nbsp_in by (simp add: isTurnComplete_def nbsp_message_def)
  show ?thesis
    using nb in1 1 2 3 by simp
qed

text \<open>
  C5. The connection state is one of the four values of \<^verbatim>\<open>ConnectionState\<close>, and a step
  changes it only as follows: \<^verbatim>\<open>connect\<close> to CONNECTING, or to ERROR when it throws (before or
  after its \<^verbatim>\<open>await\<close>); \<^verbatim>\<open>disconnect\<close> to DISCONNECTED; \<^verbatim>\<open>onopen\<close> to CONNECTED; \<^verbatim>\<open>onclose\<close>
  to DISCONNECTED. The callback \<^verbatim>\<open>onerror\<close> does not lead to ERROR: it sets ERROR (line 273)
  and then calls \<^verbatim>\<open>disconnect\<close> (line 274), whose first statement (line 36) sets DISCONNECTED
  before the callback returns, so that the state it leaves is DISCONNECTED, whereas the
  \<^verbatim>\<open>catch\<close> block of \<^verbatim>\<open>connect\<close> (line 281) leaves ERROR. No other callback changes the
  connection state.
\<close>

theorem connection_state_machine:
  "(case e of
      Connect apiKey thr \<Rightarrow>
        connectionState (next_state D e st) =
          (if apiKey = [] then connectionState st else if thr = None then CONNECTING else ERROR)
    | ConnectResume lang r \<Rightarrow>
        connectionState (next_state D e st) = connectionState st \<or>
        connectionState (next_state D e st) = ERROR
    | Disconnect \<Rightarrow> connectionState (next_state D e st) = DISCONNECTED
    | DisconnectResume r \<Rightarrow> connectionState (next_state D e st) = connectionState st
    | OnOpen t \<Rightarrow> connectionState (next_state D e st) = CONNECTED
    | OnMessage env m \<Rightarrow> connectionState (next_state D e st) = connectionState st
    | OnClose \<Rightarrow> connectionState (next_state D e st) = DISCONNECTED
    | OnError \<Rightarrow>
        next_state D e st =
          disconnect ((emit [ConsoleError ''Session error:''] st)\<lparr>connectionState := ERROR\<rparr>) \<and>
        connectionState (next_state D e st) = DISCONNECTED
    | OnAudioProcess ev \<Rightarrow> connectionState (next_state D e st) = connectionState st
    | OnEnded s \<Rightarrow> connectionState (next_state D e st) = connectionState st
    | AnimationFrame w r \<Rightarrow> connectionState (next_state D e st) = connectionState st)
   \<and> connectionState (run D es useLiveTranslator) \<in> {DISCONNECTED, CONNECTING, CONNECTED, ERROR}"
proof
  show "connectionState (run D es useLiveTranslator) \<in> {DISCONNECTED, CONNECTING, CONNECTED, ERROR}"
    by (cases "connectionState (run D es useLiveTranslator)") simp_all
next
  have err: "onerror st =
      disconnect ((emit [ConsoleError ''Session error:''] st)\<lparr>connectionState := ERROR\<rparr>)"
    by (simp only: onerror_def)
  show "case e of
      Connect apiKey thr \<Rightarrow>
        connectionState (next_state D e st) =
          (if apiKey = [] then connectionState st else if thr = None then CONNECTING else ERROR)
    | ConnectResume lang r \<Rightarrow>
        connectionState (next_state D e st) = connectionState st \<or>
        connectionState (next_state D e st) = ERROR
    | Disconnect \<Rightarrow> connectionState (next_state D e st) = DISCONNECTED
    | DisconnectResume r \<Rightarrow> connectionState (next_state D e st) = connectionState st
    | OnOpen t \<Rightarrow> connectionState (next_state D e st) = CONNECTED
    | OnMessage env m \<Rightarrow> connectionState (next_state D e st) = connectionState st
    | OnClose \<Rightarrow> connectionState (next_state D e st) = DISCONNECTED
    | OnError \<Rightarrow>
        next_state D e st =
          disconnect ((emit [ConsoleError ''Session error:''] st)\<lparr>connectionState := ERROR\<rparr>) \<and>
        connectionState (next_state D e st) = DISCONNECTED
    | OnAudioProcess ev \<Rightarrow> connectionState (next_state D e st) = connectionState st
    | OnEnded s \<Rightarrow> connectionState (next_state D e st) = connectionState st
    | AnimationFrame w r \<Rightarrow> connectionState (next_state D e st) = connectionState st"
    using next_state_connectionState [where e = e and D = D and st = st] err
    by (cases e) auto
qed

text \<open>A session that is up and reports an error: the callback leaves DISCONNECTED, having
  passed through ERROR; a \<^verbatim>\<open>connect\<close> that throws leaves ERROR.\<close>

theorem connection_state_machine_counterexample:
  "connectionState (run example_deps session_up useLiveTranslator) = CONNECTED
   \<and> connectionState
        ((emit [ConsoleError ''Session error:''] (run example_deps session_up useLiveTranslator))
           \<lparr>connectionState := ERROR\<rparr>) = ERROR
   \<and> connectionState (next_state example_deps OnError (run example_deps session_up useLiveTranslator))
       = DISCONNECTED
   \<and> connectionState (next_state example_deps OnError (run example_deps session_up useLiveTranslator))
       \<noteq> ERROR
   \<and> connectionState (next_state example_deps (Connect ''key'' (Some ThrowGetUserMedia)) useLiveTranslator)
       = ERROR"
  by (simp add: session_up_state) (simp add: eval_defs)

text \<open>
  C6. Analyser readings do not influence processing. Two runs of the page whose events
  differ only in the readings handed to the visualizers' animation frames leave the hook in
  the same state: the chunks sent to the session, the chat messages and the playback
  schedule are identical. The readings reach the canvases only.
\<close>

theorem analyser_noninterference:
  assumes "map erase_readings es1 = map erase_readings es2"
  shows "sent_chunks (effects (hook (page_run D es1 pg))) = sent_chunks (effects (hook (page_run D es2 pg)))
    \<and> messages (hook (page_run D es1 pg)) = messages (hook (page_run D es2 pg))
    \<and> playback_schedule (effects (hook (page_run D es1 pg))) = playback_schedule (effects (hook (page_run D es2 pg)))
    \<and> hook (page_run D es1 pg) = hook (page_run D es2 pg)"
proof -
  have "run D es1 (hook pg) = run D (map erase_readings es1) (hook pg)"
    by (simp add: run_erase)
  also have "\<dots> = run D (map erase_readings es2) (hook pg)"
    by (simp add: assms)
  also have "\<dots> = run D es2 (hook pg)"
    by (simp add: run_erase)
  finally have "hook (page_run D es1 pg) = hook (page_run D es2 pg)"
    by (simp add: hook_page_run)
  then show ?thesis by simp
qed

theorem analyser_noninterference_witness:
  "map erase_readings (session_up @ [AnimationFrame InputVisualizer [128, 130], OnAudioProcess mic_event,
        OnMessage (example_env 2) audio_message])
     = map erase_readings (session_up @ [AnimationFrame InputVisualizer [0, 255], OnAudioProcess mic_event,
        OnMessage (example_env 2) audio_message])
   \<and> hook (page_run example_deps
        (session_up @ [AnimationFrame InputVisualizer [128, 130], OnAudioProcess mic_event,
           OnMessage (example_env 2) audio_message]) initial_page)
     = hook (page_run example_deps
        (session_up @ [AnimationFrame InputVisualizer [0, 255], OnAudioProcess mic_event,
           OnMessage (example_env 2) audio_message]) initial_page)
   \<and> sent_chunks (effects (hook (page_run example_deps
        (session_up @ [AnimationFrame InputVisualizer [0, 255], OnAudioProcess mic_event,
           OnMessage (example_env 2) audio_message]) initial_page)))
     = [\<lparr>blob_data = ''AAAA'', mimeType = ''audio/pcm''\<rparr>]
   \<and> inputCanvas (page_run example_deps
        (session_up @ [AnimationFrame InputVisualizer [128, 130], OnAudioProcess mic_event,
           OnMessage (example_env 2) audio_message]) initial_page)
     \<noteq> inputCanvas (page_run example_deps
        (session_up @ [AnimationFrame InputVisualizer [0, 255], OnAudioProcess mic_event,
           OnMessage (example_env 2) audio_message]) initial_page)"
proof -
  let ?es1 = "session_up @ [AnimationFrame InputVisualizer [128, 130], OnAudioProcess mic_event,
        OnMessage (example_env 2) audio_message]"
  let ?es2 = "session_up @ [AnimationFrame InputVisualizer [0, 255], OnAudioProcess mic_event,
        OnMessage (example_env 2) audio_message]"
  have e: "map erase_readings ?es1 = map erase_readings ?es2"
    by (simp add: session_up_def)
  have s: "sent_chunks (effects (hook (page_run example_deps ?es1 initial_page)))
     = [\<lparr>blob_data = ''AAAA'', mimeType = ''audio/pcm''\<rparr>]"
    by (simp add: hook_page_run initial_page_def)
       (simp add: eval_defs)
  have c: "inputCanvas (page_run example_deps ?es1 initial_page)
       \<noteq> inputCanvas (page_run example_deps ?es2 initial_page)"
    by (simp add: page_run_def initial_page_def animation_frame_def draw_def
        frequencyBinCount_def getByteTimeDomainData_def canvas_element_def eval_defs)
  from analyser_noninterference [OF e, of example_deps initial_page] s c e
  show ?thesis by simp
qed

text \<open>
  C7 (as amended). The program's own response to a session error is a tear-down and nothing
  else. \<^verbatim>\<open>onerror\<close> logs the error, sets ERROR and calls \<^verbatim>\<open>disconnect\<close>, which sets
  DISCONNECTED. When no session promise is held, the callback itself stops the stream's
  tracks, disconnects processor and source, closes the input context, stops the scheduled
  sources and closes the output context, in this order, and clears the refs. When a session
  promise is held the callback emits the log entry only and leaves the resources as they
  are; the continuation of \<^verbatim>\<open>disconnect\<close>, once the awaited promise has settled, closes the
  session if the promise resolved (logging an error if closing throws or the promise was
  rejected) and then makes the same calls and clears the refs and the session promise.
  Every effect of the two steps is a tear-down effect: there is no retry and no reconnect.
\<close>

theorem session_error_tears_down:
  "(sessionPromiseRef st = None \<longrightarrow>
      emitted st (onerror st) =
        ConsoleError ''Session error:'' #
        (case streamRef st of None \<Rightarrow> [] | Some stream \<Rightarrow> map TrackStop (tracks stream)) @
        (case processorRef st of None \<Rightarrow> [] | Some p \<Rightarrow> [NodeDisconnect ProcessorNode]) @
        (case sourceRef st of None \<Rightarrow> [] | Some n \<Rightarrow> [NodeDisconnect MicSourceNode]) @
        (case inputContextRef st of None \<Rightarrow> [] | Some c \<Rightarrow> [ContextClose c]) @
        map (\<lambda>s. SourceStop (node_id s)) (scheduledSourcesRef st) @
        (case outputContextRef st of None \<Rightarrow> [] | Some c \<Rightarrow> [ContextClose c]) \<and>
      resources_released (onerror st))
   \<and> (sessionPromiseRef st \<noteq> None \<longrightarrow>
        onerror st = st\<lparr>connectionState := DISCONNECTED,
                         effects := effects st @ [ConsoleError ''Session error:'']\<rparr> \<and>
        emitted st (disconnect_resume r (onerror st)) =
          ConsoleError ''Session error:'' #
          (case r of
             SessionResolved \<Rightarrow> [SessionClose]
           | SessionResolvedCloseThrows \<Rightarrow> [SessionClose, ConsoleError ''Error closing session'']
           | SessionRejected \<Rightarrow> [ConsoleError ''Error closing session'']) @
          (case streamRef st of None \<Rightarrow> [] | Some stream \<Rightarrow> map TrackStop (tracks stream)) @
          (case processorRef st of None \<Rightarrow> [] | Some p \<Rightarrow> [NodeDisconnect ProcessorNode]) @
          (case sourceRef st of None \<Rightarrow> [] | Some n \<Rightarrow> [NodeDisconnect MicSourceNode]) @
          (case inputContextRef st of None \<Rightarrow> [] | Some c \<Rightarrow> [ContextClose c]) @
          map (\<lambda>s. SourceStop (node_id s)) (scheduledSourcesRef st) @
          (case outputContextRef st of None \<Rightarrow> [] | Some c \<Rightarrow> [ContextClose c]))
   \<and> resources_released (disconnect_resume r (onerror st))
   \<and> list_all is_teardown_effect (emitted st (disconnect_resume r (onerror st)))"
proof -
  obtain es where es: "effects (onerror st) = effects st @ es" "list_all is_teardown_effect es"
    using onerror_teardown by blast
  obtain es' where es': "effects (disconnect_resume r (onerror st)) = effects (onerror st) @ es'"
    "list_all is_teardown_effect es'"
    using disconnect_resume_teardown by blast
  have "effects (disconnect_resume r (onerror st)) = effects st @ (es @ es')"
    by (simp add: es'(1) es(1))
  then have "emitted st (disconnect_resume r (onerror st)) = es @ es'"
    by (rule emitted_append)
  then have all: "list_all is_teardown_effect (emitted st (disconnect_resume r (onerror st)))"
    using es(2) es'(2) by simp
  have sync: "emitted st (onerror st) = ConsoleError ''Session error:'' # teardown_calls st"
    if "sessionPromiseRef st = None"
    using onerror_calls [OF that] by (rule emitted_append)
  have later: "emitted st (disconnect_resume r (onerror st)) =
      ConsoleError ''Session error:'' # session_calls r @ teardown_calls st"
    if h: "sessionPromiseRef st \<noteq> None"
  proof -
    have "effects (disconnect_resume r (onerror st)) =
        effects st @ (ConsoleError ''Session error:'' # session_calls r @ teardown_calls st)"
      by (simp add: disconnect_resume_calls onerror_sync(2) [OF h] teardown_calls_frame)
    then show ?thesis by (rule emitted_append)
  qed
  have sc: "session_calls r =
      (case r of
         SessionResolved \<Rightarrow> [SessionClose]
       | SessionResolvedCloseThrows \<Rightarrow> [SessionClose, ConsoleError ''Error closing session'']
       | SessionRejected \<Rightarrow> [ConsoleError ''Error closing session''])"
    by (cases r) simp_all
  show ?thesis
    using all sync later disconnect_resume_released [of r "onerror st"] onerror_sync [of st]
    unfolding sc teardown_calls_def by simp
qed

theorem session_error_tears_down_witness:
  "sessionPromiseRef (run example_deps (session_up @ [OnMessage (example_env 2) audio_message]) useLiveTranslator) \<noteq> None
   \<and> sessionPromiseRef (run example_deps [Connect ''key'' None] useLiveTranslator) = None
   \<and> emitted (run example_deps [Connect ''key'' None] useLiveTranslator)
        (onerror (run example_deps [Connect ''key'' None] useLiveTranslator))
       = [ConsoleError ''Session error:'', ContextClose \<lparr>sampleRate = 16000\<rparr>,
          ContextClose \<lparr>sampleRate = 24000\<rparr>]
   \<and> resources_released (onerror (run example_deps [Connect ''key'' None] useLiveTranslator))
   \<and> streamRef (onerror (run example_deps (session_up @ [OnMessage (example_env 2) audio_message]) useLiveTranslator))
       = Some \<lparr>tracks = [''mic'']\<rparr>
   \<and> emitted (run example_deps (session_up @ [OnMessage (example_env 2) audio_message]) useLiveTranslator)
        (disconnect_resume SessionResolved
          (onerror (run example_deps (session_up @ [OnMessage (example_env 2) audio_message]) useLiveTranslator)))
       = [ConsoleError ''Session error:'', SessionClose, TrackStop ''mic'',
          NodeDisconnect ProcessorNode, NodeDisconnect MicSourceNode,
          ContextClose \<lparr>sampleRate = 16000\<rparr>, SourceStop 0,
          ContextClose \<lparr>sampleRate = 24000\<rparr>]
   \<and> resources_released (disconnect_resume SessionResolved
        (onerror (run example_deps (session_up @ [OnMessage (example_env 2) audio_message]) useLiveTranslator)))"
proof -
  let ?playing = "run example_deps (session_up @ [OnMessage (example_env 2) audio_message]) useLiveTranslator"
  let ?starting = "run example_deps [Connect ''key'' None] useLiveTranslator"
  have p: "sessionPromiseRef ?playing \<noteq> None" "streamRef ?playing = Some \<lparr>tracks = [''mic'']\<rparr>"
    "processorRef ?playing = Some \<lparr>bufferSize = 4096, numberOfInputChannels = 1,
                            numberOfOutputChannels = 1, onaudioprocess_set = True\<rparr>"
    "sourceRef ?playing = Some \<lparr>mediaStream = \<lparr>tracks = [''mic'']\<rparr>\<rparr>"
    "inputContextRef ?playing = Some \<lparr>sampleRate = 16000\<rparr>"
    "outputContextRef ?playing = Some \<lparr>sampleRate = 24000\<rparr>"
    "scheduledSourcesRef ?playing = [\<lparr>node_id = 0, buffer = \<lparr>duration = Finite 1\<rparr>\<rparr>]"
    by (simp_all add: playing_state)
  have s: "sessionPromiseRef ?starting = None" "streamRef ?starting = None"
    "processorRef ?starting = None" "sourceRef ?starting = None"
    "inputContextRef ?starting = Some \<lparr>sampleRate = 16000\<rparr>"
    "outputContextRef ?starting = Some \<lparr>sampleRate = 24000\<rparr>"
    "scheduledSourcesRef ?starting = []"
    by (simp_all add: eval_defs)
  from session_error_tears_down [of ?playing SessionResolved] p(1)
  have 1: "onerror ?playing = ?playing\<lparr>connectionState := DISCONNECTED,
                         effects := effects ?playing @ [ConsoleError ''Session error:'']\<rparr>"
    and 2: "resources_released (disconnect_resume SessionResolved (onerror ?playing))"
    and 3: "emitted ?playing (disconnect_resume SessionResolved (onerror ?playing)) =
          ConsoleError ''Session error:'' #
          (case SessionResolved of
             SessionResolved \<Rightarrow> [SessionClose]
           | SessionResolvedCloseThrows \<Rightarrow> [SessionClose, ConsoleError ''Error closing session'']
           | SessionRejected \<Rightarrow> [ConsoleError ''Error closing session'']) @
          (case streamRef ?playing of None \<Rightarrow> [] | Some stream \<Rightarrow> map TrackStop (tracks stream)) @
          (case processorRef ?playing of None \<Rightarrow> [] | Some p \<Rightarrow> [NodeDisconnect ProcessorNode]) @
          (case sourceRef ?playing of None \<Rightarrow> [] | Some n \<Rightarrow> [NodeDisconnect MicSourceNode]) @
          (case inputContextRef ?playing of None \<Rightarrow> [] | Some c \<Rightarrow> [ContextClose c]) @
          map (\<lambda>s. SourceStop (node_id s)) (scheduledSourcesRef ?playing) @
          (case outputContextRef ?playing of None \<Rightarrow> [] | Some c \<Rightarrow> [ContextClose c])"
    by blast+
  from session_error_tears_down [of ?starting SessionResolved] s(1)
  have 4: "resources_released (onerror ?starting)"
    and 5: "emitted ?starting (onerror ?starting) =
        ConsoleError ''Session error:'' #
        (case streamRef ?starting of None \<Rightarrow> [] | Some stream \<Rightarrow> map TrackStop (tracks stream)) @
        (case processorRef ?starting of None \<Rightarrow> [] | Some p \<Rightarrow> [NodeDisconnect ProcessorNode]) @
        (case sourceRef ?starting of None \<Rightarrow> [] | Some n \<Rightarrow> [NodeDisconnect MicSourceNode]) @
        (case inputContextRef ?starting of None \<Rightarrow> [] | Some c \<Rightarrow> [ContextClose c]) @
        map (\<lambda>s. SourceStop (node_id s)) (scheduledSourcesRef ?starting) @
        (case outputContextRef ?starting of None \<Rightarrow> [] | Some c \<Rightarrow> [ContextClose c])"
    by blast+
  have 6: "emitted ?playing (disconnect_resume SessionResolved (onerror ?playing))
       = [ConsoleError ''Session error:'', SessionClose, TrackStop ''mic'',
          NodeDisconnect ProcessorNode, NodeDisconnect MicSourceNode,
          ContextClose \<lparr>sampleRate = 16000\<rparr>, SourceStop 0,
          ContextClose \<lparr>sampleRate = 24000\<rparr>]"
    unfolding 3 by (simp add: p(2-7))
  have 7: "emitted ?starting (onerror ?starting)
       = [ConsoleError ''Session error:'', ContextClose \<lparr>sampleRate = 16000\<rparr>,
          ContextClose \<lparr>sampleRate = 24000\<rparr>]"
    unfolding 5 by (simp add: s(2-7))
  have "streamRef (onerror ?playing) = Some \<lparr>tracks = [''mic'']\<rparr>"
    by (simp add: 1 p(2))
  then show ?thesis using p(1) s(1) 2 4 6 7 by blast
qed

text \<open>Against the claim as it was stated: after a session error and the continuation of the
  tear-down it starts, the stream, the contexts, the processor and the scheduled source of a
  playing session are gone.\<close>

theorem session_error_tears_down_counterexample:
  "streamRef (run example_deps (session_up @ [OnMessage (example_env 2) audio_message]) useLiveTranslator)
     = Some \<lparr>tracks = [''mic'']\<rparr>
   \<and> scheduledSourcesRef (run example_deps (session_up @ [OnMessage (example_env 2) audio_message]) useLiveTranslator)
     = [\<lparr>node_id = 0, buffer = \<lparr>duration = Finite 1\<rparr>\<rparr>]
   \<and> streamRef (run example_deps [OnError, DisconnectResume SessionResolved]
        (run example_deps (session_up @ [OnMessage (example_env 2) audio_message]) useLiveTranslator)) = None
   \<and> inputContextRef (run example_deps [OnError, DisconnectResume SessionResolved]
        (run example_deps (session_up @ [OnMessage (example_env 2) audio_message]) useLiveTranslator)) = None
   \<and> outputContextRef (run example_deps [OnError, DisconnectResume SessionResolved]
        (run example_deps (session_up @ [OnMessage (example_env 2) audio_message]) useLiveTranslator)) = None
   \<and> processorRef (run example_deps [OnError, DisconnectResume SessionResolved]
        (run example_deps (session_up @ [OnMessage (example_env 2) audio_message]) useLiveTranslator)) = None
   \<and> scheduledSourcesRef (run example_deps [OnError, DisconnectResume SessionResolved]
        (run example_deps (session_up @ [OnMessage (example_env 2) audio_message]) useLiveTranslator)) = []
   \<and> emitted (run example_deps (session_up @ [OnMessage (example_env 2) audio_message]) useLiveTranslator)
        (run example_deps [OnError, DisconnectResume SessionResolved]
          (run example_deps (session_up @ [OnMessage (example_env 2) audio_message]) useLiveTranslator))
     = [ConsoleError ''Session error:'', SessionClose, TrackStop ''mic'',
        NodeDisconnect ProcessorNode, NodeDisconnect MicSourceNode,
        ContextClose \<lparr>sampleRate = 16000\<rparr>, SourceStop 0,
        ContextClose \<lparr>sampleRate = 24000\<rparr>]"
  by (simp add: playing_state) (simp add: eval_defs)

text \<open>
  C8. When \<^verbatim>\<open>onerror\<close> returns the connection state is DISCONNECTED, not ERROR. A step
  that enters ERROR is a \<^verbatim>\<open>connect\<close> that throws, before or after its \<^verbatim>\<open>await\<close>, and it
  leaves the session promise ref as it was; such a \<^verbatim>\<open>connect\<close> ends in ERROR.
\<close>

theorem session_error_ends_disconnected:
  "connectionState (onerror st) = DISCONNECTED
   \<and> (connectionState (next_state D e st) = ERROR \<and> connectionState st \<noteq> ERROR \<longrightarrow>
        ((\<exists>apiKey thr. e = Connect apiKey (Some thr)) \<or> (\<exists>lang r. e = ConnectResume lang r)) \<and>
        sessionPromiseRef (next_state D e st) = sessionPromiseRef st)
   \<and> (apiKey \<noteq> [] \<longrightarrow> connectionState (connect D apiKey (Some thr) st) = ERROR)
   \<and> connectionState (connect_resume D lang StreamRejected st) = ERROR"
proof -
  have 1: "connectionState (onerror st) = DISCONNECTED" by (simp add: onerror_frame)
  have 2: "((\<exists>apiKey thr. e = Connect apiKey (Some thr)) \<or> (\<exists>lang r. e = ConnectResume lang r)) \<and>
        sessionPromiseRef (next_state D e st) = sessionPromiseRef st"
    if a: "connectionState (next_state D e st) = ERROR \<and> connectionState st \<noteq> ERROR"
  proof (cases e)
    case (Connect k thr)
    then show ?thesis using a by (cases thr) (simp_all add: connect_connectionState connect_frame split: if_splits)
  next
    case (ConnectResume lang r)
    then show ?thesis using a connect_resume_connectionState [of D lang r st] by auto
  qed (use a next_state_connectionState [where e = e and D = D and st = st] in simp_all)
  have 3: "connectionState (connect D apiKey (Some thr) st) = ERROR" if "apiKey \<noteq> []"
    using that by (simp add: connect_connectionState)
  have 4: "connectionState (connect_resume D lang StreamRejected st) = ERROR"
    by (simp add: connect_resume_def)
  show ?thesis using 1 2 3 4 by blast
qed

theorem session_error_ends_disconnected_witness:
  "connectionState (next_state example_deps (Connect ''key'' (Some ThrowGetUserMedia)) useLiveTranslator) = ERROR
   \<and> connectionState useLiveTranslator \<noteq> ERROR
   \<and> sessionPromiseRef (next_state example_deps (Connect ''key'' (Some ThrowGetUserMedia)) useLiveTranslator)
       = sessionPromiseRef useLiveTranslator
   \<and> connectionState (connect example_deps ''key'' (Some ThrowGetUserMedia) useLiveTranslator) = ERROR
   \<and> connectionState (onerror (run example_deps session_up useLiveTranslator)) = DISCONNECTED"
proof -
  have h: "connectionState (next_state example_deps (Connect ''key'' (Some ThrowGetUserMedia)) useLiveTranslator) = ERROR
    \<and> connectionState useLiveTranslator \<noteq> ERROR"
    by (simp add: eval_defs)
  have k: "''key'' \<noteq> []" by simp
  from session_error_ends_disconnected [of "run example_deps session_up useLiveTranslator" example_deps
      "Connect ''key'' (Some ThrowGetUserMedia)" "''key''" ThrowGetUserMedia]
    session_error_ends_disconnected [of useLiveTranslator example_deps
      "Connect ''key'' (Some ThrowGetUserMedia)" "''key''" ThrowGetUserMedia] h k
  show ?thesis by blast
qed

text \<open>
  C9. In every state reachable from the initial one the chat list has even length, with a
  \<^verbatim>\<open>user\<close> message at every even index and a \<^verbatim>\<open>model\<close> message at every odd index.
\<close>

theorem messages_user_model_pairs:
  "even (length (messages (run D es useLiveTranslator))) \<and>
   (\<forall>i<length (messages (run D es useLiveTranslator)).
      sender (messages (run D es useLiveTranslator) ! i)
        = (if even i then Sender_user else Sender_model))"
proof (induction es rule: rev_induct)
  case Nil
  then show ?case by (simp add: run_Nil useLiveTranslator_def)
next
  case (snoc e es)
  from next_state_messages [of D e "run D es useLiveTranslator"]
  show ?case
  proof
    assume "messages (next_state D e (run D es useLiveTranslator)) = messages (run D es useLiveTranslator)"
    then show ?thesis using snoc.IH by (simp add: run_snoc)
  next
    assume "\<exists>u m. sender u = Sender_user \<and> sender m = Sender_model \<and>
      messages (next_state D e (run D es useLiveTranslator)) = messages (run D es useLiveTranslator) @ [u, m]"
    then obtain u m where um: "sender u = Sender_user" "sender m = Sender_model"
      "messages (next_state D e (run D es useLiveTranslator)) = messages (run D es useLiveTranslator) @ [u, m]"
      by blast
    show ?thesis
      unfolding run_snoc um(3)
      by (rule pairs_append [OF conjunct1 [OF snoc.IH] conjunct2 [OF snoc.IH] um(1) um(2)])
  qed
qed

theorem messages_user_model_pairs_witness:
  "length (messages (run example_deps
      (session_up @ [OnMessage (example_env 2) fragment_message, OnMessage (example_env 3) turn_message])
      useLiveTranslator)) = 2 \<and>
   sender (messages (run example_deps
      (session_up @ [OnMessage (example_env 2) fragment_message, OnMessage (example_env 3) turn_message])
      useLiveTranslator) ! 1) = Sender_model"
proof -
  let ?ms = "messages (run example_deps
      (session_up @ [OnMessage (example_env 2) fragment_message, OnMessage (example_env 3) turn_message])
      useLiveTranslator)"
  have len: "length ?ms = 2"
    by (simp add: eval_defs)
  have "\<forall>i<length ?ms. sender (?ms ! i) = (if even i then Sender_user else Sender_model)"
    using messages_user_model_pairs [of example_deps
      "session_up @ [OnMessage (example_env 2) fragment_message, OnMessage (example_env 3) turn_message]"]
    by blast
  then have "sender (?ms ! 1) = (if even (1::nat) then Sender_user else Sender_model)"
    using len by simp
  then show ?thesis using len by simp
qed

text \<open>
  C10. \<^verbatim>\<open>disconnect\<close> leaves the chat list as it is, in the part that runs at the call and in
  the part that runs once the awaited session promise has settled. What it does reset is
  the connection state (at the call) and, when it has run to its end, the detected-language
  display and the resources of capture, playback and session.
\<close>

theorem disconnect_preserves_messages:
  "messages (disconnect st) = messages st
   \<and> messages (disconnect_resume r st) = messages st
   \<and> connectionState (disconnect st) = DISCONNECTED
   \<and> (sessionPromiseRef st = None \<longrightarrow>
        resources_released (disconnect st) \<and>
        detectedLanguage (disconnect st) = ''Waiting for speech...'')
   \<and> resources_released (disconnect_resume r st)
   \<and> detectedLanguage (disconnect_resume r st) = ''Waiting for speech...''"
proof -
  have "resources_released (disconnect st) \<and>
        detectedLanguage (disconnect st) = ''Waiting for speech...''"
    if "sessionPromiseRef st = None"
    using that
    by (simp add: disconnect_def Let_def disconnect_cleanup_released disconnect_cleanup_resources)
  moreover have "detectedLanguage (disconnect_resume r st) = ''Waiting for speech...''"
    by (simp add: disconnect_resume_def Let_def disconnect_cleanup_resources)
  ultimately show ?thesis
    by (simp add: disconnect_frame disconnect_resume_frame disconnect_resume_released)
qed

theorem disconnect_preserves_messages_witness:
  "sessionPromiseRef (run example_deps [Connect ''key'' None] useLiveTranslator) = None
   \<and> inputContextRef (run example_deps [Connect ''key'' None] useLiveTranslator)
       = Some \<lparr>sampleRate = 16000\<rparr>
   \<and> resources_released (disconnect (run example_deps [Connect ''key'' None] useLiveTranslator))
   \<and> messages (disconnect_resume SessionResolved (disconnect
        (run example_deps
           (session_up @ [OnMessage (example_env 2) fragment_message, OnMessage (example_env 3) turn_message])
           useLiveTranslator)))
       = messages (run example_deps
           (session_up @ [OnMessage (example_env 2) fragment_message, OnMessage (example_env 3) turn_message])
           useLiveTranslator)
   \<and> length (messages (run example_deps
           (session_up @ [OnMessage (example_env 2) fragment_message, OnMessage (example_env 3) turn_message])
           useLiveTranslator)) = 2"
proof -
  let ?starting = "run example_deps [Connect ''key'' None] useLiveTranslator"
  let ?talked = "run example_deps
           (session_up @ [OnMessage (example_env 2) fragment_message, OnMessage (example_env 3) turn_message])
           useLiveTranslator"
  have s: "sessionPromiseRef ?starting = None"
    "inputContextRef ?starting = Some \<lparr>sampleRate = 16000\<rparr>"
    by (simp_all add: eval_defs)
  have len: "length (messages ?talked) = 2"
    by (simp add: eval_defs)
  from disconnect_preserves_messages [of ?starting SessionResolved] s(1)
  have 1: "resources_released (disconnect ?starting)" by blast
  from disconnect_preserves_messages [of ?talked SessionResolved]
    disconnect_preserves_messages [of "disconnect ?talked" SessionResolved]
  have 2: "messages (disconnect_resume SessionResolved (disconnect ?talked)) = messages ?talked"
    by simp
  show ?thesis using s len 1 2 by blast
qed

end
